theory Spec2Isabelle
  imports Complex_Main "HOL-Library.AList" "HOL-Library.Sublist"
begin

section \<open>Python values\<close>

text \<open>
  The payloads of \<^verbatim>\<open>server.py\<close> are what \<^verbatim>\<open>json.load\<close> and the JSON-RPC layer
  hand over: \<^verbatim>\<open>None\<close>, booleans, integers, floats, strings, lists and dicts with string
  keys. A dict is an association list in insertion order; a Python dict has every key
  once, so a list with a repeated key stands for no dict. A finite float is carried as
  the rational it denotes.
\<close>

datatype json =
    JNull
  | JBool bool
  | JInt int
  | JFloat rat
  | JStr string
  | JList "json list"
  | JDict "(string \<times> json) list"

text \<open>The exceptions the code can raise, and \<open>ExternalError\<close> for a failure inside a
  collaborator (the transport, the server process, the file system).\<close>

datatype py_error =
    AssertionError
  | KeyError string
  | TypeError
  | AttributeError
  | ValueError
  | MultilspyException string
  | ExternalError string

definition and_then :: "py_error + 'a \<Rightarrow> ('a \<Rightarrow> py_error + 'b) \<Rightarrow> py_error + 'b" where
  "and_then m f = (case m of Inl e \<Rightarrow> Inl e | Inr x \<Rightarrow> f x)"

definition py_assert :: "bool \<Rightarrow> py_error + unit" where
  "py_assert b = (if b then Inr () else Inl AssertionError)"

subsection \<open>Operators\<close>

text \<open>\<^verbatim>\<open>==\<close>: \<^verbatim>\<open>True == 1\<close> and \<^verbatim>\<open>2 == 2.0\<close> hold in Python, a string equals only a
  string, lists are compared element by element, dicts by length and key-wise.\<close>

fun py_num :: "json \<Rightarrow> rat option" where
  "py_num (JBool b) = Some (if b then 1 else 0)"
| "py_num (JInt i) = Some (of_int i)"
| "py_num (JFloat r) = Some r"
| "py_num _ = None"

fun py_eq :: "json \<Rightarrow> json \<Rightarrow> bool" where
  "py_eq JNull y = (y = JNull)"
| "py_eq (JStr s) y = (case y of JStr t \<Rightarrow> s = t | _ \<Rightarrow> False)"
| "py_eq (JList xs) y = (case y of JList ys \<Rightarrow> list_all2 py_eq xs ys | _ \<Rightarrow> False)"
| "py_eq (JDict kvs) y =
     (case y of
        JDict kws \<Rightarrow>
          length kvs = length kws \<and>
          list_all (\<lambda>(k, v). case map_of kws k of None \<Rightarrow> False | Some w \<Rightarrow> py_eq v w) kvs
      | _ \<Rightarrow> False)"
| "py_eq x y = (case (py_num x, py_num y) of (Some a, Some b) \<Rightarrow> a = b | _ \<Rightarrow> False)"

text \<open>\<^verbatim>\<open>isinstance(x, dict)\<close> and \<^verbatim>\<open>isinstance(x, list)\<close>.\<close>

fun is_dict :: "json \<Rightarrow> bool" where
  "is_dict (JDict kvs) = True"
| "is_dict _ = False"

fun is_list :: "json \<Rightarrow> bool" where
  "is_list (JList xs) = True"
| "is_list _ = False"

text \<open>\<^verbatim>\<open>x[k]\<close> with a string key: only a dict takes one, and a missing key is a
  \<^verbatim>\<open>KeyError\<close>.\<close>

fun py_getitem :: "json \<Rightarrow> string \<Rightarrow> py_error + json" where
  "py_getitem (JDict kvs) k = (case map_of kvs k of None \<Rightarrow> Inl (KeyError k) | Some v \<Rightarrow> Inr v)"
| "py_getitem _ k = Inl TypeError"

text \<open>\<^verbatim>\<open>x[k] = v\<close>: an existing key keeps its place, a new one goes last.\<close>

fun py_setitem :: "json \<Rightarrow> string \<Rightarrow> json \<Rightarrow> py_error + json" where
  "py_setitem (JDict kvs) k v = Inr (JDict (AList.update k v kvs))"
| "py_setitem _ k v = Inl TypeError"

text \<open>\<^verbatim>\<open>k in x\<close> for a string \<open>k\<close>: a key of a dict, an element of a list, a
  substring of a string; the other values are not containers.\<close>

fun py_contains :: "string \<Rightarrow> json \<Rightarrow> py_error + bool" where
  "py_contains k (JDict kvs) = Inr (k \<in> set (map fst kvs))"
| "py_contains k (JList xs) = Inr (list_ex (\<lambda>x. py_eq x (JStr k)) xs)"
| "py_contains k (JStr s) = Inr (sublist k s)"
| "py_contains k _ = Inl TypeError"

text \<open>\<^verbatim>\<open>for x in v\<close>: the elements of a list, the keys of a dict, the characters of
  a string.\<close>

fun py_iter :: "json \<Rightarrow> py_error + json list" where
  "py_iter (JList xs) = Inr xs"
| "py_iter (JDict kvs) = Inr (map (\<lambda>(k, v). JStr k) kvs)"
| "py_iter (JStr s) = Inr (map (\<lambda>c. JStr [c]) s)"
| "py_iter _ = Inl TypeError"

text \<open>\<^verbatim>\<open>x.items()\<close>: only a dict has the method.\<close>

fun py_items :: "json \<Rightarrow> py_error + (string \<times> json) list" where
  "py_items (JDict kvs) = Inr kvs"
| "py_items _ = Inl AttributeError"

section \<open>The session and its collaborators\<close>

text \<open>
  The fields of the \<^verbatim>\<open>XcodeBuildServer\<close> object that the code reads or sets. The two
  \<^verbatim>\<open>asyncio.Event\<close>s are the booleans \<^verbatim>\<open>is_set()\<close> returns.
\<close>

record lsp =
  server_started :: bool
  completions_available :: bool
  service_ready_event :: bool
  repository_root_path :: string

datatype log_level = INFO | ERROR

datatype handler =
    H_register_capability_handler
  | H_lang_status_handler
  | H_execute_client_command_handler
  | H_window_log_message
  | H_do_nothing

text \<open>Every call the code makes on a collaborator, in the order made.\<close>

datatype event =
    OnRequest string handler
  | OnNotification string handler
  | Log string log_level
  | LogValue string json log_level
  | ServerStart
  | SendInitialize json
  | NotifyInitialized json
  | ServerShutdown
  | ServerStop
  | DidOpen string
  | DidClose string
  | SendRename json
  | SendWorkspaceSymbol json

text \<open>
  A method body takes the object, and returns its result or the exception raised, the
  object as it left it, and the calls it made. \<^verbatim>\<open>await\<close> is a plain call: what the
  server does meanwhile is not part of the model.
\<close>

type_synonym 'a io = "lsp \<Rightarrow> (py_error + 'a) \<times> lsp \<times> event list"

definition io_return :: "'a \<Rightarrow> 'a io" where
  "io_return x = (\<lambda>self. (Inr x, self, []))"

definition io_raise :: "py_error \<Rightarrow> 'a io" where
  "io_raise e = (\<lambda>self. (Inl e, self, []))"

definition io_bind :: "'a io \<Rightarrow> ('a \<Rightarrow> 'b io) \<Rightarrow> 'b io" where
  "io_bind m f = (\<lambda>self.
     case m self of
       (Inl e, self1, evs1) \<Rightarrow> (Inl e, self1, evs1)
     | (Inr x, self1, evs1) \<Rightarrow>
         (case f x self1 of (r, self2, evs2) \<Rightarrow> (r, self2, evs1 @ evs2)))"

definition io_emit :: "event \<Rightarrow> unit io" where
  "io_emit ev = (\<lambda>self. (Inr (), self, [ev]))"

definition io_lift :: "py_error + 'a \<Rightarrow> 'a io" where
  "io_lift r = (\<lambda>self. (r, self, []))"

text \<open>A call that can fail: the call is made, then its outcome is delivered.\<close>

definition io_call :: "event \<Rightarrow> py_error + 'a \<Rightarrow> 'a io" where
  "io_call ev outcome = (\<lambda>self. (outcome, self, [ev]))"

definition io_update :: "(lsp \<Rightarrow> py_error + lsp) \<Rightarrow> unit io" where
  "io_update f = (\<lambda>self. case f self of Inl e \<Rightarrow> (Inl e, self, []) | Inr self1 \<Rightarrow> (Inr (), self1, []))"

text \<open>
  \<^verbatim>\<open>with cm: body\<close>. When entering raises, the body and the exit are skipped. Otherwise
  the exit runs once, after the body, whether the body returned or raised, and is told
  which. The context managers here are generators that catch nothing, so an exception of
  the body is never swallowed; an exception of the exit replaces the body's outcome.
\<close>

definition py_with :: "unit io \<Rightarrow> (py_error option \<Rightarrow> unit io) \<Rightarrow> 'a io \<Rightarrow> 'a io" where
  "py_with enter exit body = (\<lambda>self.
     case enter self of
       (Inl e, self1, evs1) \<Rightarrow> (Inl e, self1, evs1)
     | (Inr u, self1, evs1) \<Rightarrow>
         (case body self1 of
            (r, self2, evs2) \<Rightarrow>
              (case exit (case r of Inl e \<Rightarrow> Some e | Inr x \<Rightarrow> None) self2 of
                 (Inl e', self3, evs3) \<Rightarrow> (Inl e', self3, evs1 @ evs2 @ evs3)
               | (Inr u', self3, evs3) \<Rightarrow> (r, self3, evs1 @ evs2 @ evs3))))"

text \<open>\<^verbatim>\<open>for x in xs: f(x)\<close>, stopping at the first exception.\<close>

fun io_for :: "('a \<Rightarrow> unit io) \<Rightarrow> 'a list \<Rightarrow> unit io" where
  "io_for f [] = (\<lambda>self. (Inr (), self, []))"
| "io_for f (x # xs) = (\<lambda>self.
     case f x self of
       (Inl e, self1, evs1) \<Rightarrow> (Inl e, self1, evs1)
     | (Inr u, self1, evs1) \<Rightarrow>
         (case io_for f xs self1 of (r, self2, evs2) \<Rightarrow> (r, self2, evs1 @ evs2)))"

text \<open>
  What the code takes from outside \<^verbatim>\<open>server.py\<close>: the operating system and
  \<^verbatim>\<open>pathlib\<close>, the template file \<^verbatim>\<open>initialize_params.json\<close> as \<^verbatim>\<open>json.load\<close> returns
  it, the \<^verbatim>\<open>start_server\<close> context of the base class \<^verbatim>\<open>LanguageServer\<close>, and the outcome
  of each awaited call on \<^verbatim>\<open>self.server\<close>. A theorem for every \<open>env\<close> holds whatever
  these do.
\<close>

record env =
  os_getpid :: int
  os_path_isabs :: "string \<Rightarrow> bool"
  os_path_abspath :: "string \<Rightarrow> string"
  os_path_basename :: "string \<Rightarrow> string"
  os_path_join :: "string \<Rightarrow> string \<Rightarrow> string"
  path_as_uri :: "string \<Rightarrow> py_error + string"
  initialize_params_json :: "py_error + json"
  super_start_server_enter :: "lsp \<Rightarrow> py_error + lsp"
  super_start_server_exit :: "py_error option \<Rightarrow> lsp \<Rightarrow> py_error + lsp"
  server_start :: "py_error + unit"
  initialize_response :: "py_error + json"
  server_shutdown :: "py_error + unit"
  server_stop :: "py_error + unit"
  rename_response :: "py_error + json"
  workspace_symbol_response :: "py_error + json"

section \<open>\<^verbatim>\<open>_get_initialize_params\<close>\<close>

text \<open>The literal markers that the template must hold before substitution.\<close>

definition processId_marker :: string where
  "processId_marker = ''os.getpid()''"

definition rootPath_marker :: string where
  "rootPath_marker = ''repository_absolute_path''"

definition rootUri_marker :: string where
  "rootUri_marker = ''pathlib.Path(repository_absolute_path).as_uri()''"

definition workspaceFolders_marker :: string where
  \<open>workspaceFolders_marker =
     ''[\<newline>            {\<newline>                "uri": pathlib.Path(repository_absolute_path).as_uri(),\<newline>                "name": os.path.basename(repository_absolute_path),\<newline>            }\<newline>        ]''\<close>

text \<open>Lines 64 to 97, statement by statement. The path functions are those of \<open>env\<close>.\<close>

definition get_initialize_params :: "env \<Rightarrow> string \<Rightarrow> py_error + json" where
  "get_initialize_params env path =
     and_then (initialize_params_json env) (\<lambda>d0.
     let repository_absolute_path =
           (if \<not> os_path_isabs env path then os_path_abspath env path else path) in
     and_then (py_getitem d0 ''processId'') (\<lambda>v1.
     and_then (py_assert (py_eq v1 (JStr processId_marker))) (\<lambda>_.
     and_then (py_setitem d0 ''processId'' (JInt (os_getpid env))) (\<lambda>d1.
     and_then (py_getitem d1 ''rootPath'') (\<lambda>v2.
     and_then (py_assert (py_eq v2 (JStr rootPath_marker))) (\<lambda>_.
     and_then (py_setitem d1 ''rootPath'' (JStr repository_absolute_path)) (\<lambda>d2.
     and_then (py_getitem d2 ''rootUri'') (\<lambda>v3.
     and_then (py_assert (py_eq v3 (JStr rootUri_marker))) (\<lambda>_.
     and_then (path_as_uri env repository_absolute_path) (\<lambda>uri.
     and_then (py_setitem d2 ''rootUri'' (JStr uri)) (\<lambda>d3.
     and_then (py_getitem d3 ''workspaceFolders'') (\<lambda>v4.
     and_then (py_assert (py_eq v4 (JStr workspaceFolders_marker))) (\<lambda>_.
     and_then (path_as_uri env repository_absolute_path) (\<lambda>uri'.
     py_setitem d3 ''workspaceFolders''
       (JList [JDict [(''uri'', JStr uri'),
                      (''name'', JStr (os_path_basename env repository_absolute_path))]])
     ))))))))))))))"

section \<open>The handlers of \<^verbatim>\<open>start_server\<close>\<close>

definition completion_trigger_characters :: json where
  "completion_trigger_characters = JList [JStr ''.'', JStr ''@'', JStr ''#'', JStr ''*'', JStr '' '']"

text \<open>The body of the loop of \<^verbatim>\<open>register_capability_handler\<close> (lines 118 to 127).\<close>

definition register_capability_step :: "json \<Rightarrow> unit io" where
  "register_capability_step registration =
     io_bind (io_lift (py_getitem registration ''method'')) (\<lambda>method.
       if py_eq method (JStr ''textDocument/completion'') then
         io_bind (io_lift (and_then (py_getitem registration ''registerOptions'')
                             (\<lambda>opts. py_getitem opts ''resolveProvider''))) (\<lambda>resolve.
         io_bind (io_lift (py_assert (py_eq resolve (JBool True)))) (\<lambda>_.
         io_bind (io_lift (and_then (py_getitem registration ''registerOptions'')
                             (\<lambda>opts. py_getitem opts ''triggerCharacters''))) (\<lambda>triggers.
         io_bind (io_lift (py_assert (py_eq triggers completion_trigger_characters))) (\<lambda>_.
         (\<lambda>self. (Inr (), self\<lparr>completions_available := True\<rparr>, []))))))
       else io_return ())"

definition register_capability_handler :: "json \<Rightarrow> json io" where
  "register_capability_handler params =
     io_bind (io_lift (and_then (py_contains ''registrations'' params) py_assert)) (\<lambda>_.
     io_bind (io_lift (and_then (py_getitem params ''registrations'') py_iter)) (\<lambda>registrations.
     io_bind (io_for register_capability_step registrations) (\<lambda>_.
     io_return JNull)))"

definition lang_status_handler :: "json \<Rightarrow> json io" where
  "lang_status_handler params =
     io_bind (io_lift (py_getitem params ''type'')) (\<lambda>ty.
     io_bind (if py_eq ty (JStr ''ServiceReady'')
              then io_bind (io_lift (py_getitem params ''message''))
                     (\<lambda>msg. io_return (py_eq msg (JStr ''ServiceReady'')))
              else io_return False) (\<lambda>ready.
     if ready then (\<lambda>self. (Inr JNull, self\<lparr>service_ready_event := True\<rparr>, []))
     else io_return JNull))"

definition execute_client_command_handler :: "json \<Rightarrow> json io" where
  "execute_client_command_handler params = io_return (JList [])"

definition window_log_message :: "json \<Rightarrow> json io" where
  "window_log_message msg =
     io_bind (io_emit (LogValue ''LSP: window/logMessage: '' msg INFO)) (\<lambda>_. io_return JNull)"

definition do_nothing :: "json \<Rightarrow> json io" where
  "do_nothing params = io_return JNull"

fun run_handler :: "handler \<Rightarrow> json \<Rightarrow> json io" where
  "run_handler H_register_capability_handler = register_capability_handler"
| "run_handler H_lang_status_handler = lang_status_handler"
| "run_handler H_execute_client_command_handler = execute_client_command_handler"
| "run_handler H_window_log_message = window_log_message"
| "run_handler H_do_nothing = do_nothing"

section \<open>\<^verbatim>\<open>start_server\<close>\<close>

text \<open>Lines 148 to 154: the seven registrations, in the order of the source.\<close>

definition handler_registrations :: "event list" where
  "handler_registrations =
     [OnRequest ''client/registerCapability'' H_register_capability_handler,
      OnNotification ''language/status'' H_lang_status_handler,
      OnNotification ''window/logMessage'' H_window_log_message,
      OnRequest ''workspace/executeClientCommand'' H_execute_client_command_handler,
      OnNotification ''$/progress'' H_do_nothing,
      OnNotification ''textDocument/publishDiagnostics'' H_do_nothing,
      OnNotification ''language/actionableNotification'' H_do_nothing]"

text \<open>\<^verbatim>\<open>init_response["capabilities"]["textDocumentSync"]["change"]\<close>.\<close>

definition sync_change :: "json \<Rightarrow> py_error + json" where
  "sync_change init_response =
     and_then (py_getitem init_response ''capabilities'') (\<lambda>caps.
     and_then (py_getitem caps ''textDocumentSync'') (\<lambda>sync.
     py_getitem sync ''change''))"

text \<open>Lines 157 to 168: from the start of the process to the \<^verbatim>\<open>initialized\<close>
  notification.\<close>

definition handshake :: "env \<Rightarrow> unit io" where
  "handshake env =
     io_bind (io_emit (Log ''Starting XcodeBuildServer server process'' INFO)) (\<lambda>_.
     io_bind (io_call ServerStart (server_start env)) (\<lambda>_.
     io_bind (\<lambda>self. io_lift (get_initialize_params env (repository_root_path self)) self)
       (\<lambda>initialize_params.
     io_bind (io_emit (Log ''Sending initialize request from LSP client to LSP server and awaiting response'' INFO)) (\<lambda>_.
     io_bind (io_call (SendInitialize initialize_params) (initialize_response env)) (\<lambda>init_response.
     io_bind (io_lift (and_then (sync_change init_response) (\<lambda>v. py_assert (py_eq v (JInt 2))))) (\<lambda>_.
     io_emit (NotifyInitialized (JDict []))))))))"

text \<open>
  \<^verbatim>\<open>start_server\<close> is the generator of an \<^verbatim>\<open>asynccontextmanager\<close>. The block of
  \<^verbatim>\<open>async with lsp.start_server():\<close> is the parameter \<open>body\<close>: it runs where the generator
  yields (line 174), and an exception it raises is raised at the \<^verbatim>\<open>yield\<close>, inside the
  \<^verbatim>\<open>async with super().start_server()\<close> of line 156. Registering a handler, logging and
  sending a notification return nothing and are taken not to raise.
\<close>

definition start_server :: "env \<Rightarrow> unit io \<Rightarrow> unit io" where
  "start_server env body =
     io_bind (io_for io_emit handler_registrations) (\<lambda>_.
     py_with (io_update (super_start_server_enter env))
             (\<lambda>exc. io_update (super_start_server_exit env exc))
       (io_bind (handshake env) (\<lambda>_.
        io_bind body (\<lambda>_.
        io_bind (io_call ServerShutdown (server_shutdown env)) (\<lambda>_.
        io_call ServerStop (server_stop env))))))"

section \<open>The typed queries\<close>

text \<open>
  Modelled from the spec: \<^verbatim>\<open>open_file\<close>, the context manager of the base class
  \<^verbatim>\<open>LanguageServer\<close>, which is not among the sources. The spec's Open-File Scope is
  "created by sending \<^verbatim>\<open>textDocument/didOpen\<close> before an operation that requires document
  context, released by sending \<^verbatim>\<open>textDocument/didClose\<close> on scope exit (including on
  error)".
\<close>

definition open_file_enter :: "string \<Rightarrow> unit io" where
  "open_file_enter relative_file_path = io_emit (DidOpen relative_file_path)"

definition open_file_exit :: "string \<Rightarrow> py_error option \<Rightarrow> unit io" where
  "open_file_exit relative_file_path exc = io_emit (DidClose relative_file_path)"

subsection \<open>\<^verbatim>\<open>request_rename\<close>\<close>

text \<open>Lines 218 to 223: the edits of one URI. \<^verbatim>\<open>TextEdit(**change)\<close> builds a dict with the
  keys and values of \<open>change\<close>.\<close>

fun text_edits :: "json list \<Rightarrow> json list \<Rightarrow> py_error + json list" where
  "text_edits [] edits = Inr edits"
| "text_edits (change # changes) edits =
     (if \<not> is_dict change then Inl AssertionError
      else if py_contains ''range'' change \<noteq> Inr True then Inl AssertionError
      else if py_contains ''newText'' change \<noteq> Inr True then Inl AssertionError
      else text_edits changes (edits @ [change]))"

text \<open>Lines 216 to 224: the loop over \<^verbatim>\<open>response["changes"].items()\<close>, with \<open>ret\<close> the
  dict built so far.\<close>

fun rename_changes :: "(string \<times> json) list \<Rightarrow> (string \<times> json) list \<Rightarrow> py_error + json" where
  "rename_changes [] ret = Inr (JDict ret)"
| "rename_changes ((uri, changes) # items) ret =
     (case changes of
        JList cs \<Rightarrow>
          (case text_edits cs [] of
             Inl e \<Rightarrow> Inl e
           | Inr edits \<Rightarrow> rename_changes items (AList.update uri (JList edits) ret))
      | _ \<Rightarrow> Inl AssertionError)"

text \<open>Lines 212 to 226.\<close>

definition rename_result :: "json \<Rightarrow> py_error + json" where
  "rename_result response =
     (if \<not> is_dict response then Inl AssertionError
      else if py_contains ''changes'' response \<noteq> Inr True then Inl AssertionError
      else and_then (py_getitem response ''changes'') (\<lambda>changes.
           and_then (py_items changes) (\<lambda>items.
           rename_changes items [])))"

definition rename_params :: "string \<Rightarrow> int \<Rightarrow> int \<Rightarrow> string \<Rightarrow> json" where
  "rename_params uri line column new_name =
     JDict [(''textDocument'', JDict [(''uri'', JStr uri)]),
            (''position'', JDict [(''line'', JInt line), (''character'', JInt column)]),
            (''newName'', JStr new_name)]"

definition request_rename :: "env \<Rightarrow> string \<Rightarrow> int \<Rightarrow> int \<Rightarrow> string \<Rightarrow> json io" where
  "request_rename env relative_file_path line column new_name = (\<lambda>self.
     if \<not> server_started self then
       io_bind (io_emit (Log ''request_rename called before Language Server started'' ERROR))
         (\<lambda>_. io_raise (MultilspyException ''Language Server not started'')) self
     else
       io_bind
         (py_with (open_file_enter relative_file_path) (open_file_exit relative_file_path)
            (io_bind (io_lift (path_as_uri env
                        (os_path_join env (repository_root_path self) relative_file_path))) (\<lambda>uri.
             io_call (SendRename (rename_params uri line column new_name)) (rename_response env))))
         (\<lambda>response. io_lift (rename_result response)) self)"

subsection \<open>\<^verbatim>\<open>request_workspace_symbols\<close>\<close>

text \<open>Lines 264 to 266: the optional fields that the item has are copied.\<close>

fun copy_fields :: "string list \<Rightarrow> (string \<times> json) list \<Rightarrow> (string \<times> json) list \<Rightarrow> (string \<times> json) list" where
  "copy_fields [] item symbol = symbol"
| "copy_fields (field # rest) item symbol =
     (case map_of item field of
        Some v \<Rightarrow> copy_fields rest item (AList.update field v symbol)
      | None \<Rightarrow> copy_fields rest item symbol)"

text \<open>Lines 252 to 266: one item of the response.\<close>

definition workspace_symbol :: "json \<Rightarrow> py_error + json" where
  "workspace_symbol item =
     (case item of
        JDict kvs \<Rightarrow>
          and_then (py_getitem item ''name'') (\<lambda>name.
          and_then (py_getitem item ''kind'') (\<lambda>kind.
          and_then (py_getitem item ''location'') (\<lambda>loc.
          and_then (if is_dict loc \<and> py_contains ''range'' loc = Inr True then Inr loc
                    else and_then (py_getitem loc ''uri'') (\<lambda>uri. Inr (JDict [(''uri'', uri)])))
            (\<lambda>location.
          Inr (JDict (copy_fields [''containerName'', ''tags'', ''data''] kvs
                        [(''name'', name), (''kind'', kind), (''location'', location)]))))))
      | _ \<Rightarrow> Inl AssertionError)"

fun workspace_symbols :: "json list \<Rightarrow> json list \<Rightarrow> py_error + json list" where
  "workspace_symbols [] ret = Inr ret"
| "workspace_symbols (item # items) ret =
     (case workspace_symbol item of
        Inl e \<Rightarrow> Inl e
      | Inr symbol \<Rightarrow> workspace_symbols items (ret @ [symbol]))"

text \<open>Lines 245 to 270.\<close>

definition workspace_symbols_result :: "json \<Rightarrow> py_error + json list" where
  "workspace_symbols_result response =
     (if response = JNull then Inr []
      else case response of
             JList items \<Rightarrow> workspace_symbols items []
           | _ \<Rightarrow> Inl AssertionError)"

definition request_workspace_symbols :: "env \<Rightarrow> string \<Rightarrow> json list io" where
  "request_workspace_symbols env query = (\<lambda>self.
     if \<not> server_started self then
       io_bind (io_emit (Log ''request_workspace_symbols called before Language Server started'' ERROR))
         (\<lambda>_. io_raise (MultilspyException ''Language Server not started'')) self
     else
       io_bind (io_call (SendWorkspaceSymbol (JDict [(''query'', JStr query)]))
                  (workspace_symbol_response env))
         (\<lambda>response. io_lift (workspace_symbols_result response)) self)"

section \<open>Expected shapes\<close>

text \<open>An edit of a rename response: a dict with the keys \<^verbatim>\<open>range\<close> and \<^verbatim>\<open>newText\<close>; and a
  list of such edits.\<close>

definition is_text_edit :: "json \<Rightarrow> bool" where
  "is_text_edit change =
     (case change of
        JDict kvs \<Rightarrow> ''range'' \<in> set (map fst kvs) \<and> ''newText'' \<in> set (map fst kvs)
      | _ \<Rightarrow> False)"

definition is_edit_list :: "json \<Rightarrow> bool" where
  "is_edit_list changes = (case changes of JList cs \<Rightarrow> list_all is_text_edit cs | _ \<Rightarrow> False)"

text \<open>The path that \<^verbatim>\<open>_get_initialize_params\<close> works with (lines 72 and 73), the
  condition that all four placeholders of a template hold their markers, and the template
  with the four values put in place.\<close>

definition absolute_path :: "env \<Rightarrow> string \<Rightarrow> string" where
  "absolute_path env path = (if os_path_isabs env path then path else os_path_abspath env path)"

definition markers_ok :: "json \<Rightarrow> bool" where
  "markers_ok d \<longleftrightarrow>
     py_getitem d ''processId'' = Inr (JStr processId_marker) \<and>
     py_getitem d ''rootPath'' = Inr (JStr rootPath_marker) \<and>
     py_getitem d ''rootUri'' = Inr (JStr rootUri_marker) \<and>
     py_getitem d ''workspaceFolders'' = Inr (JStr workspaceFolders_marker)"

definition substituted :: "env \<Rightarrow> string \<Rightarrow> string \<Rightarrow> (string \<times> json) list \<Rightarrow> json" where
  "substituted env p uri kvs =
     JDict (AList.update ''workspaceFolders''
              (JList [JDict [(''uri'', JStr uri), (''name'', JStr (os_path_basename env p))]])
           (AList.update ''rootUri'' (JStr uri)
           (AList.update ''rootPath'' (JStr p)
           (AList.update ''processId'' (JInt (os_getpid env)) kvs))))"

text \<open>The calls that open and close a file scope.\<close>

definition is_file_scope_event :: "event \<Rightarrow> bool" where
  "is_file_scope_event ev = (case ev of DidOpen p \<Rightarrow> True | DidClose p \<Rightarrow> True | _ \<Rightarrow> False)"

text \<open>An item of a workspace symbol response that \<^verbatim>\<open>request_workspace_symbols\<close> can
  translate: a dict with \<^verbatim>\<open>name\<close>, \<^verbatim>\<open>kind\<close> and a \<^verbatim>\<open>location\<close> dict that has a \<^verbatim>\<open>range\<close>
  or a \<^verbatim>\<open>uri\<close>.\<close>

definition is_symbol_item :: "json \<Rightarrow> bool" where
  "is_symbol_item item =
     (case item of
        JDict kvs \<Rightarrow>
          ''name'' \<in> set (map fst kvs) \<and> ''kind'' \<in> set (map fst kvs) \<and>
          (case map_of kvs ''location'' of
             Some (JDict loc) \<Rightarrow> ''range'' \<in> set (map fst loc) \<or> ''uri'' \<in> set (map fst loc)
           | _ \<Rightarrow> False)
      | _ \<Rightarrow> False)"

text \<open>
  The response shapes that the two translations accept, after section 4.4 of the spec: a
  rename response is a dict whose \<^verbatim>\<open>changes\<close> is a dict from URIs to lists of edits; a
  workspace symbol response is \<^verbatim>\<open>None\<close> or a list of symbol items. \<open>changes_not_a_dict\<close>
  singles out the rename responses that have a \<^verbatim>\<open>changes\<close> which is no dict.
\<close>

definition rename_expected_shape :: "json \<Rightarrow> bool" where
  "rename_expected_shape response =
     (case response of
        JDict kvs \<Rightarrow>
          (case map_of kvs ''changes'' of
             Some (JDict changes) \<Rightarrow> list_all (\<lambda>(uri, edits). is_edit_list edits) changes
           | _ \<Rightarrow> False)
      | _ \<Rightarrow> False)"

definition changes_not_a_dict :: "json \<Rightarrow> bool" where
  "changes_not_a_dict response =
     (case response of
        JDict kvs \<Rightarrow> (case map_of kvs ''changes'' of Some v \<Rightarrow> \<not> is_dict v | None \<Rightarrow> False)
      | _ \<Rightarrow> False)"

definition symbols_expected_shape :: "json \<Rightarrow> bool" where
  "symbols_expected_shape response =
     (case response of
        JNull \<Rightarrow> True
      | JList items \<Rightarrow> list_all is_symbol_item items
      | _ \<Rightarrow> False)"

text \<open>
  Registrations as \<^verbatim>\<open>register_capability_handler\<close> reads them. A registration is for
  completion when its \<^verbatim>\<open>method\<close> is \<^verbatim>\<open>textDocument/completion\<close>. Its options match when
  \<^verbatim>\<open>registerOptions\<close> holds a \<^verbatim>\<open>resolveProvider\<close> with \<^verbatim>\<open>resolveProvider == True\<close> and a
  \<^verbatim>\<open>triggerCharacters\<close> equal to the list of the five characters (\<^verbatim>\<open>==\<close> is Python's, so
  \<^verbatim>\<open>1 == True\<close>). Its options differ when one of the two comparisons is reached and fails:
  \<^verbatim>\<open>resolveProvider\<close> is there and is not equal to \<^verbatim>\<open>True\<close>, or it is equal to \<^verbatim>\<open>True\<close>
  and \<^verbatim>\<open>triggerCharacters\<close> is there and is another value. A registration is accepted when
  it has a method and, if it is for completion, its options match.
\<close>

definition is_completion_registration :: "json \<Rightarrow> bool" where
  "is_completion_registration registration =
     (case py_getitem registration ''method'' of
        Inr method \<Rightarrow> py_eq method (JStr ''textDocument/completion'')
      | Inl e \<Rightarrow> False)"

definition register_option :: "json \<Rightarrow> string \<Rightarrow> py_error + json" where
  "register_option registration name =
     and_then (py_getitem registration ''registerOptions'') (\<lambda>opts. py_getitem opts name)"

definition options_match :: "json \<Rightarrow> bool" where
  "options_match registration =
     (case (register_option registration ''resolveProvider'',
            register_option registration ''triggerCharacters'') of
        (Inr resolve, Inr triggers) \<Rightarrow>
          py_eq resolve (JBool True) \<and>
          py_eq triggers (JList [JStr ''.'', JStr ''@'', JStr ''#'', JStr ''*'', JStr '' ''])
      | _ \<Rightarrow> False)"

definition options_differ :: "json \<Rightarrow> bool" where
  "options_differ registration =
     (case register_option registration ''resolveProvider'' of
        Inr resolve \<Rightarrow>
          \<not> py_eq resolve (JBool True) \<or>
          (case register_option registration ''triggerCharacters'' of
             Inr triggers \<Rightarrow>
               \<not> py_eq triggers (JList [JStr ''.'', JStr ''@'', JStr ''#'', JStr ''*'', JStr '' ''])
           | Inl e \<Rightarrow> False)
      | Inl e \<Rightarrow> False)"

definition accepted_registration :: "json \<Rightarrow> bool" where
  "accepted_registration registration =
     (case py_getitem registration ''method'' of
        Inr method \<Rightarrow>
          \<not> py_eq method (JStr ''textDocument/completion'') \<or> options_match registration
      | Inl e \<Rightarrow> False)"

section \<open>A sample session\<close>

text \<open>Concrete collaborators, on which the theorems below are instantiated: POSIX-like
  paths, a template that holds the four markers, and a server that answers as the
  protocol says.\<close>

definition demo_self :: lsp where
  "demo_self = \<lparr>server_started = True, completions_available = False,
                 service_ready_event = False, repository_root_path = ''/repo''\<rparr>"

definition demo_template :: json where
  "demo_template =
     JDict [(''processId'', JStr processId_marker),
            (''clientInfo'', JDict [(''name'', JStr ''multilspy'')]),
            (''rootPath'', JStr rootPath_marker),
            (''rootUri'', JStr rootUri_marker),
            (''capabilities'', JDict []),
            (''workspaceFolders'', JStr workspaceFolders_marker)]"

definition demo_range :: json where
  "demo_range =
     JDict [(''start'', JDict [(''line'', JInt 3), (''character'', JInt 4)]),
            (''end'', JDict [(''line'', JInt 3), (''character'', JInt 7)])]"

definition demo_rename_response :: json where
  "demo_rename_response =
     JDict [(''changes'',
             JDict [(''file:///a.swift'',
                     JList [JDict [(''range'', demo_range), (''newText'', JStr ''foo'')]])])]"

definition demo_env :: env where
  "demo_env =
     \<lparr>os_getpid = 4242,
      os_path_isabs = (\<lambda>p. take 1 p = ''/''),
      os_path_abspath = (\<lambda>p. ''/cwd/'' @ p),
      os_path_basename = (\<lambda>p. rev (takeWhile (\<lambda>c. c \<noteq> CHR ''/'') (rev p))),
      os_path_join = (\<lambda>a b. a @ ''/'' @ b),
      path_as_uri = (\<lambda>p. if take 1 p = ''/'' then Inr (''file://'' @ p) else Inl ValueError),
      initialize_params_json = Inr demo_template,
      super_start_server_enter = (\<lambda>self. Inr (self\<lparr>server_started := True\<rparr>)),
      super_start_server_exit = (\<lambda>exc self. Inr (self\<lparr>server_started := False\<rparr>)),
      server_start = Inr (),
      initialize_response =
        Inr (JDict [(''capabilities'', JDict [(''textDocumentSync'', JDict [(''change'', JInt 2)])])]),
      server_shutdown = Inr (),
      server_stop = Inr (),
      rename_response = Inr demo_rename_response,
      workspace_symbol_response = Inr JNull\<rparr>"

definition demo_idle :: lsp where
  "demo_idle = demo_self\<lparr>server_started := False\<rparr>"

definition demo_initialize_params :: json where
  "demo_initialize_params =
     JDict [(''processId'', JInt 4242),
            (''clientInfo'', JDict [(''name'', JStr ''multilspy'')]),
            (''rootPath'', JStr ''/repo''),
            (''rootUri'', JStr ''file:///repo''),
            (''capabilities'', JDict []),
            (''workspaceFolders'',
             JList [JDict [(''uri'', JStr ''file:///repo''), (''name'', JStr ''repo'')]])]"

definition demo_handshake_events :: "event list" where
  "demo_handshake_events =
     [Log ''Starting XcodeBuildServer server process'' INFO,
      ServerStart,
      Log ''Sending initialize request from LSP client to LSP server and awaiting response'' INFO,
      SendInitialize demo_initialize_params]"

definition demo_symbols_response :: json where
  "demo_symbols_response =
     JList [JDict [(''name'', JStr ''Foo''), (''kind'', JInt 5),
                   (''location'', JDict [(''uri'', JStr ''file:///repo/a.swift'')]),
                   (''containerName'', JStr ''App'')],
            JDict [(''name'', JStr ''bar''), (''kind'', JInt 12),
                   (''location'', JDict [(''uri'', JStr ''file:///repo/b.swift''),
                                          (''range'', demo_range)])]]"

definition demo_registrations :: "json \<Rightarrow> json" where
  "demo_registrations triggers =
     JDict [(''registrations'',
       JList [JDict [(''id'', JStr ''1''), (''method'', JStr ''workspace/didChangeWatchedFiles'')],
              JDict [(''id'', JStr ''2''), (''method'', JStr ''textDocument/completion''),
                     (''registerOptions'',
                      JDict [(''resolveProvider'', JBool True),
                             (''triggerCharacters'', triggers)])]])]"

section \<open>Unfolding the effects\<close>

lemmas io_defs = io_return_def io_raise_def io_bind_def io_emit_def io_lift_def io_call_def
  io_update_def py_with_def

section \<open>Queries before the session has started\<close>

text \<open>
  C4: when \<^verbatim>\<open>server_started\<close> is false, \<^verbatim>\<open>request_rename\<close> (for any path, line, column
  and name) and \<^verbatim>\<open>request_workspace_symbols\<close> (for any query) raise
  \<^verbatim>\<open>MultilspyException("Language Server not started")\<close>. The object is left as it was, and
  the only call made is the one that logs the error: no file is opened (no \<open>DidOpen\<close>) and
  no request is sent (no \<open>SendRename\<close>, no \<open>SendWorkspaceSymbol\<close>).
\<close>

theorem not_started_raises_without_io:
  assumes "\<not> server_started self"
  shows "request_rename env relative_file_path line column new_name self =
           (Inl (MultilspyException ''Language Server not started''), self,
            [Log ''request_rename called before Language Server started'' ERROR])
       \<and> request_workspace_symbols env query self =
           (Inl (MultilspyException ''Language Server not started''), self,
            [Log ''request_workspace_symbols called before Language Server started'' ERROR])"
  using assms by (simp add: request_rename_def request_workspace_symbols_def io_defs)

theorem not_started_raises_without_io_witness:
  "\<not> server_started (demo_self\<lparr>server_started := False\<rparr>)
   \<and> request_rename demo_env ''a.swift'' 3 4 ''foo'' (demo_self\<lparr>server_started := False\<rparr>) =
       (Inl (MultilspyException ''Language Server not started''), demo_self\<lparr>server_started := False\<rparr>,
        [Log ''request_rename called before Language Server started'' ERROR])
   \<and> request_workspace_symbols demo_env ''q'' (demo_self\<lparr>server_started := False\<rparr>) =
       (Inl (MultilspyException ''Language Server not started''), demo_self\<lparr>server_started := False\<rparr>,
        [Log ''request_workspace_symbols called before Language Server started'' ERROR])"
  using not_started_raises_without_io [of "demo_self\<lparr>server_started := False\<rparr>" demo_env "''a.swift''" 3 4 "''foo''" "''q''"]
  by simp

section \<open>The result of a rename\<close>

lemma text_edits_append:
  "list_all is_text_edit cs \<Longrightarrow> text_edits cs edits = Inr (edits @ cs)"
  by (induction cs arbitrary: edits) (auto simp: is_text_edit_def split: json.splits)

lemma update_fresh: "k \<notin> fst ` set al \<Longrightarrow> AList.update k v al = al @ [(k, v)]"
  by (induction al) auto

lemma rename_changes_identity:
  "list_all (\<lambda>(uri, edits). is_edit_list edits) items \<Longrightarrow> distinct (map fst items) \<Longrightarrow>
   fst ` set ret \<inter> fst ` set items = {} \<Longrightarrow>
   rename_changes items ret = Inr (JDict (ret @ items))"
proof (induction items arbitrary: ret)
  case Nil
  then show ?case by simp
next
  case (Cons item items)
  obtain uri changes where item: "item = (uri, changes)" by (cases item)
  from Cons.prems(1) item obtain cs where cs: "changes = JList cs" "list_all is_text_edit cs"
    by (auto simp: is_edit_list_def split: json.splits)
  from Cons.prems(3) item have fresh: "uri \<notin> fst ` set ret" by auto
  have "rename_changes (item # items) ret = rename_changes items (ret @ [(uri, changes)])"
    using item cs fresh by (simp add: text_edits_append update_fresh)
  also have "\<dots> = Inr (JDict ((ret @ [(uri, changes)]) @ items))"
    using Cons.prems item by (intro Cons.IH) auto
  finally show ?case using item by simp
qed

lemma rename_result_identity:
  assumes "map_of response ''changes'' = Some (JDict changes)"
    and "distinct (map fst changes)"
    and "list_all (\<lambda>(uri, edits). is_edit_list edits) changes"
  shows "rename_result (JDict response) = Inr (JDict changes)"
proof -
  have "''changes'' \<in> fst ` set response"
    using assms(1) by (metis domI dom_map_of_conv_image_fst)
  then show ?thesis
    using assms rename_changes_identity [of changes "[]"]
    by (simp add: rename_result_def and_then_def)
qed


text \<open>
  C1: when the session has started and the server answers the rename request with a dict
  whose \<^verbatim>\<open>changes\<close> maps URIs to lists of edits, each edit a dict with \<^verbatim>\<open>range\<close> and
  \<^verbatim>\<open>newText\<close>, then \<^verbatim>\<open>request_rename\<close> returns a dict equal to \<^verbatim>\<open>changes\<close>: the same URI
  keys, each with its edits in the same order and with the same fields. In particular the
  response \<^verbatim>\<open>{"changes": {"file:///a.swift": [{"range": r, "newText": "foo"}]}}\<close> gives, for
  every \<open>r\<close>, the one key \<^verbatim>\<open>file:///a.swift\<close> with the one edit whose \<^verbatim>\<open>newText\<close> is
  \<^verbatim>\<open>foo\<close>. The URIs of a Python dict are distinct.
\<close>

theorem rename_round_trip:
  assumes "server_started self"
    and "path_as_uri env (os_path_join env (repository_root_path self) relative_file_path) = Inr uri"
    and "rename_response env = Inr (JDict response)"
    and "map_of response ''changes'' = Some (JDict changes)"
    and "distinct (map fst changes)"
    and "list_all (\<lambda>(uri, edits). is_edit_list edits) changes"
  shows "fst (request_rename env relative_file_path line column new_name self) = Inr (JDict changes)
       \<and> (\<forall>rng.
            rename_result
              (JDict [(''changes'',
                 JDict [(''file:///a.swift'',
                         JList [JDict [(''range'', rng), (''newText'', JStr ''foo'')]])])])
            = Inr (JDict [(''file:///a.swift'',
                           JList [JDict [(''range'', rng), (''newText'', JStr ''foo'')]])]))"
proof
  have "rename_result (JDict response) = Inr (JDict changes)"
    using assms(4-6) by (rule rename_result_identity)
  then show "fst (request_rename env relative_file_path line column new_name self) = Inr (JDict changes)"
    using assms(1-3)
    by (simp add: request_rename_def io_defs open_file_enter_def open_file_exit_def)
next
  show "\<forall>rng.
            rename_result
              (JDict [(''changes'',
                 JDict [(''file:///a.swift'',
                         JList [JDict [(''range'', rng), (''newText'', JStr ''foo'')]])])])
            = Inr (JDict [(''file:///a.swift'',
                           JList [JDict [(''range'', rng), (''newText'', JStr ''foo'')]])])"
    by (simp add: rename_result_def and_then_def)
qed

theorem rename_round_trip_witness:
  "fst (request_rename demo_env ''a.swift'' 3 4 ''foo'' demo_self)
     = Inr (JDict [(''file:///a.swift'',
                    JList [JDict [(''range'', demo_range), (''newText'', JStr ''foo'')]])])"
  using rename_round_trip [of demo_self demo_env "''a.swift''" "''file:///repo/a.swift''"
      "[(''changes'',
             JDict [(''file:///a.swift'',
                     JList [JDict [(''range'', demo_range), (''newText'', JStr ''foo'')]])])]"
      "[(''file:///a.swift'',
                     JList [JDict [(''range'', demo_range), (''newText'', JStr ''foo'')]])]" 3 4 "''foo''"]
  by (simp add: demo_env_def demo_self_def demo_rename_response_def is_edit_list_def is_text_edit_def)

section \<open>The initialize parameters\<close>

lemma py_eq_JStr: "py_eq v (JStr s) \<longleftrightarrow> v = JStr s"
  by (cases v) auto

lemma py_getitem_Inr: "py_getitem d k = Inr v \<Longrightarrow> \<exists>kvs. d = JDict kvs \<and> map_of kvs k = Some v"
  by (cases d) (auto split: option.splits)

lemma get_initialize_params_ok:
  assumes "initialize_params_json env = Inr (JDict kvs)" and "markers_ok (JDict kvs)"
    and "path_as_uri env (absolute_path env path) = Inr uri"
  shows "get_initialize_params env path = Inr (substituted env (absolute_path env path) uri kvs)"
  using assms
  by (auto simp: get_initialize_params_def markers_ok_def substituted_def absolute_path_def
      and_then_def py_assert_def update_conv' Let_def split: option.splits)

lemma get_initialize_params_fails:
  assumes "initialize_params_json env = Inr d" and "\<not> markers_ok d"
  shows "\<exists>e. get_initialize_params env path = Inl e"
proof (cases d)
  case (JDict kvs)
  then show ?thesis
    using assms
    by (auto simp: get_initialize_params_def markers_ok_def and_then_def py_assert_def
        py_eq_JStr update_conv' Let_def split: option.splits sum.splits)
qed (use assms in \<open>simp_all add: get_initialize_params_def and_then_def\<close>)


lemma get_initialize_params_assertion:
  assumes "initialize_params_json env = Inr (JDict kvs)" and "\<not> markers_ok (JDict kvs)"
    and "{''processId'', ''rootPath'', ''rootUri'', ''workspaceFolders''} \<subseteq> dom (map_of kvs)"
    and "path_as_uri env (absolute_path env path) = Inr uri"
  shows "get_initialize_params env path = Inl AssertionError"
  using assms
  by (auto simp: get_initialize_params_def markers_ok_def and_then_def py_assert_def
        py_eq_JStr update_conv' Let_def absolute_path_def split: option.splits sum.splits)

text \<open>
  C3: with \<open>d\<close> the loaded template, \<^verbatim>\<open>_get_initialize_params\<close> returns a value only when
  \<^verbatim>\<open>processId\<close>, \<^verbatim>\<open>rootPath\<close>, \<^verbatim>\<open>rootUri\<close> and \<^verbatim>\<open>workspaceFolders\<close> all equal their literal
  markers, and fails when any of them differs (with an \<^verbatim>\<open>AssertionError\<close> when the four
  keys are there). When they match it returns the template with the process id, the
  absolute repository path, that path as a file URI, and the one-element folder list
  (\<^verbatim>\<open>uri\<close> the file URI, \<^verbatim>\<open>name\<close> the basename) in their places.
\<close>

theorem initialize_params_checked_then_substituted:
  assumes "initialize_params_json env = Inr d"
  shows "(markers_ok d \<and> path_as_uri env (absolute_path env path) = Inr uri \<longrightarrow>
           (\<exists>kvs. d = JDict kvs \<and>
              get_initialize_params env path = Inr (substituted env (absolute_path env path) uri kvs)))
       \<and> (\<not> markers_ok d \<longrightarrow> (\<exists>e. get_initialize_params env path = Inl e))
       \<and> (\<not> markers_ok d \<and> path_as_uri env (absolute_path env path) = Inr uri \<and>
            (\<exists>kvs. d = JDict kvs \<and>
               {''processId'', ''rootPath'', ''rootUri'', ''workspaceFolders''} \<subseteq> dom (map_of kvs)) \<longrightarrow>
           get_initialize_params env path = Inl AssertionError)"
proof (intro conjI impI)
  assume ok: "markers_ok d \<and> path_as_uri env (absolute_path env path) = Inr uri"
  then obtain kvs where d: "d = JDict kvs"
    unfolding markers_ok_def using py_getitem_Inr by blast
  with ok assms show "\<exists>kvs. d = JDict kvs \<and>
      get_initialize_params env path = Inr (substituted env (absolute_path env path) uri kvs)"
    by (simp add: get_initialize_params_ok)
next
  assume "\<not> markers_ok d"
  with assms show "\<exists>e. get_initialize_params env path = Inl e"
    by (rule get_initialize_params_fails)
next
  assume "\<not> markers_ok d \<and> path_as_uri env (absolute_path env path) = Inr uri \<and>
            (\<exists>kvs. d = JDict kvs \<and>
               {''processId'', ''rootPath'', ''rootUri'', ''workspaceFolders''} \<subseteq> dom (map_of kvs))"
  with assms show "get_initialize_params env path = Inl AssertionError"
    using get_initialize_params_assertion by blast
qed

theorem initialize_params_checked_then_substituted_witness:
  "get_initialize_params demo_env ''/repo'' = Inr demo_initialize_params
   \<and> get_initialize_params
       (demo_env\<lparr>initialize_params_json :=
          Inr (JDict [(''processId'', JStr processId_marker), (''rootPath'', JStr ''/tmp''),
                      (''rootUri'', JStr rootUri_marker),
                      (''workspaceFolders'', JStr workspaceFolders_marker)])\<rparr>) ''/repo''
     = Inl AssertionError"
  using initialize_params_checked_then_substituted
          [of demo_env demo_template "''/repo''" "''file:///repo''"]
        initialize_params_checked_then_substituted
          [of "demo_env\<lparr>initialize_params_json :=
                 Inr (JDict [(''processId'', JStr processId_marker), (''rootPath'', JStr ''/tmp''),
                      (''rootUri'', JStr rootUri_marker),
                      (''workspaceFolders'', JStr workspaceFolders_marker)])\<rparr>"
              "JDict [(''processId'', JStr processId_marker), (''rootPath'', JStr ''/tmp''),
                      (''rootUri'', JStr rootUri_marker),
                      (''workspaceFolders'', JStr workspaceFolders_marker)]"
              "''/repo''" "''file:///repo''"]
  by (simp add: demo_env_def demo_template_def demo_initialize_params_def markers_ok_def
      absolute_path_def substituted_def rootPath_marker_def)


section \<open>Starting the server\<close>

lemma io_for_emit: "io_for io_emit evs self = (Inr (), self, evs)"
  by (induction evs) (simp_all add: io_emit_def)

lemma handshake_mismatch:
  assumes "initialize_response env = Inr init_response"
    and "\<forall>v. sync_change init_response = Inr v \<longrightarrow> \<not> py_eq v (JInt 2)"
  shows "\<exists>e evs. handshake env self = (Inl e, self, evs) \<and> (\<forall>p. NotifyInitialized p \<notin> set evs)"
  using assms
  by (cases "server_start env"; cases "get_initialize_params env (repository_root_path self)";
      cases "sync_change init_response")
     (auto simp: handshake_def io_defs and_then_def py_assert_def)

text \<open>
  C5: when the initialize response has no \<^verbatim>\<open>capabilities.textDocumentSync.change\<close> or the
  field is not equal to 2, \<^verbatim>\<open>start_server\<close> fails with an error; the \<^verbatim>\<open>initialized\<close>
  notification is not among the calls made, and the result does not depend on the body of
  the scope, which is never run: the session does not become ready.
\<close>

theorem sync_change_mismatch_fails_startup:
  assumes "initialize_response env = Inr init_response"
    and "\<forall>v. sync_change init_response = Inr v \<longrightarrow> \<not> py_eq v (JInt 2)"
  shows "\<exists>e self' evs. start_server env body self = (Inl e, self', evs)
           \<and> (\<forall>p. NotifyInitialized p \<notin> set evs)
           \<and> (\<forall>body'. start_server env body' self = start_server env body self)"
proof (cases "super_start_server_enter env self")
  case (Inl e)
  then show ?thesis
    by (simp add: start_server_def io_defs io_for_emit handler_registrations_def)
next
  case (Inr self1)
  from handshake_mismatch [OF assms, of self1] obtain e evs
    where h: "handshake env self1 = (Inl e, self1, evs)" "\<forall>p. NotifyInitialized p \<notin> set evs"
    by blast
  show ?thesis
    using Inr h
    by (cases "super_start_server_exit env (Some e) self1")
       (simp_all add: start_server_def io_defs io_for_emit handler_registrations_def)
qed

theorem sync_change_mismatch_fails_startup_witness:
  "initialize_response
     (demo_env\<lparr>initialize_response :=
        Inr (JDict [(''capabilities'', JDict [(''textDocumentSync'', JInt 1)])])\<rparr>)
     = Inr (JDict [(''capabilities'', JDict [(''textDocumentSync'', JInt 1)])])
   \<and> sync_change (JDict [(''capabilities'', JDict [(''textDocumentSync'', JInt 1)])]) = Inl TypeError
   \<and> (\<exists>e self' evs.
        start_server
          (demo_env\<lparr>initialize_response :=
             Inr (JDict [(''capabilities'', JDict [(''textDocumentSync'', JInt 1)])])\<rparr>)
          (io_return ()) demo_idle = (Inl e, self', evs)
        \<and> (\<forall>p. NotifyInitialized p \<notin> set evs))"
  using sync_change_mismatch_fails_startup
          [of "demo_env\<lparr>initialize_response :=
                 Inr (JDict [(''capabilities'', JDict [(''textDocumentSync'', JInt 1)])])\<rparr>"
              "JDict [(''capabilities'', JDict [(''textDocumentSync'', JInt 1)])]"
              "io_return ()" demo_idle]
  by (simp add: sync_change_def and_then_def) blast


lemma prefix_before_element:
  assumes "evs = regs @ rest" and "x \<notin> set regs" and "evs = pre @ x # post"
  shows "set regs \<subseteq> set pre"
proof -
  from assms(1,3) have "regs @ rest = pre @ x # post" by simp
  then consider us where "regs = pre @ us" "us @ rest = x # post"
    | us where "regs @ us = pre" "rest = us @ x # post"
    by (auto simp: append_eq_append_conv2)
  then show ?thesis
  proof cases
    case 1
    have "us = []"
    proof (cases us)
      case (Cons u us')
      with 1(2) have "x \<in> set (pre @ us)" by simp
      with 1(1) assms(2) show ?thesis by simp
    qed simp
    with 1 show ?thesis by simp
  next
    case 2
    then show ?thesis by auto
  qed
qed

lemma start_server_registers_first:
  "\<exists>rest. snd (snd (start_server env body self)) = handler_registrations @ rest"
  by (simp add: start_server_def io_bind_def io_for_emit split: prod.splits sum.splits)

text \<open>
  C8: the calls of every execution of \<^verbatim>\<open>start_server\<close> begin with the seven registrations:
  \<^verbatim>\<open>client/registerCapability\<close> as a request, \<^verbatim>\<open>language/status\<close> and
  \<^verbatim>\<open>window/logMessage\<close> as notifications, \<^verbatim>\<open>workspace/executeClientCommand\<close> as a request,
  \<^verbatim>\<open>$/progress\<close>, \<^verbatim>\<open>textDocument/publishDiagnostics\<close> and
  \<^verbatim>\<open>language/actionableNotification\<close> as notifications. So wherever the initialize request
  stands among the calls, all seven registrations stand before it. The handlers registered
  are those of lines 115 to 146.
\<close>

theorem seven_handlers_registered_before_initialize:
  "(\<exists>rest. snd (snd (start_server env body self))
       = [OnRequest ''client/registerCapability'' H_register_capability_handler,
          OnNotification ''language/status'' H_lang_status_handler,
          OnNotification ''window/logMessage'' H_window_log_message,
          OnRequest ''workspace/executeClientCommand'' H_execute_client_command_handler,
          OnNotification ''$/progress'' H_do_nothing,
          OnNotification ''textDocument/publishDiagnostics'' H_do_nothing,
          OnNotification ''language/actionableNotification'' H_do_nothing] @ rest)
   \<and> (\<forall>pre p post. snd (snd (start_server env body self)) = pre @ SendInitialize p # post \<longrightarrow>
        {OnRequest ''client/registerCapability'' H_register_capability_handler,
         OnNotification ''language/status'' H_lang_status_handler,
         OnNotification ''window/logMessage'' H_window_log_message,
         OnRequest ''workspace/executeClientCommand'' H_execute_client_command_handler,
         OnNotification ''$/progress'' H_do_nothing,
         OnNotification ''textDocument/publishDiagnostics'' H_do_nothing,
         OnNotification ''language/actionableNotification'' H_do_nothing} \<subseteq> set pre)
   \<and> run_handler H_register_capability_handler = register_capability_handler
   \<and> run_handler H_lang_status_handler = lang_status_handler
   \<and> run_handler H_window_log_message = window_log_message
   \<and> run_handler H_execute_client_command_handler = execute_client_command_handler
   \<and> run_handler H_do_nothing = do_nothing"
proof -
  let ?evs = "snd (snd (start_server env body self))"
  from start_server_registers_first [of env body self]
  obtain rest where first: "?evs = handler_registrations @ rest" ..
  have second: "set handler_registrations \<subseteq> set pre"
    if "?evs = pre @ SendInitialize p # post" for pre p post
    using first _ that by (rule prefix_before_element) (simp add: handler_registrations_def)
  from first have "\<exists>rest. ?evs = handler_registrations @ rest" ..
  with second show ?thesis
    unfolding handler_registrations_def by simp
qed

lemma demo_get_initialize_params:
  "get_initialize_params demo_env ''/repo'' = Inr demo_initialize_params"
  by (simp add: get_initialize_params_def demo_env_def demo_template_def
      demo_initialize_params_def and_then_def py_assert_def Let_def)

lemma demo_handshake:
  assumes "repository_root_path self = ''/repo''"
  shows "handshake demo_env self
     = (Inr (), self, demo_handshake_events @ [NotifyInitialized (JDict [])])"
proof -
  have "server_start demo_env = Inr ()"
    and "initialize_response demo_env =
        Inr (JDict [(''capabilities'', JDict [(''textDocumentSync'', JDict [(''change'', JInt 2)])])])"
    by (simp_all add: demo_env_def)
  with assms show ?thesis
    by (simp add: handshake_def io_defs demo_get_initialize_params sync_change_def and_then_def
        py_assert_def demo_handshake_events_def)
qed

lemma demo_base:
  "repository_root_path demo_self = ''/repo''"
  "super_start_server_enter demo_env demo_idle = Inr demo_self"
  "super_start_server_exit demo_env exc demo_self = Inr demo_idle"
  "server_shutdown demo_env = Inr ()" "server_stop demo_env = Inr ()"
  by (simp_all add: demo_env_def demo_idle_def demo_self_def)

lemma demo_start_server:
  "start_server demo_env (io_return ()) demo_idle
     = (Inr (), demo_idle,
        handler_registrations @ demo_handshake_events
          @ [NotifyInitialized (JDict []), ServerShutdown, ServerStop])"
  by (simp add: start_server_def io_defs io_for_emit demo_base demo_handshake)

theorem seven_handlers_registered_before_initialize_witness:
  "snd (snd (start_server demo_env (io_return ()) demo_idle))
     = [OnRequest ''client/registerCapability'' H_register_capability_handler,
        OnNotification ''language/status'' H_lang_status_handler,
        OnNotification ''window/logMessage'' H_window_log_message,
        OnRequest ''workspace/executeClientCommand'' H_execute_client_command_handler,
        OnNotification ''$/progress'' H_do_nothing,
        OnNotification ''textDocument/publishDiagnostics'' H_do_nothing,
        OnNotification ''language/actionableNotification'' H_do_nothing,
        Log ''Starting XcodeBuildServer server process'' INFO,
        ServerStart,
        Log ''Sending initialize request from LSP client to LSP server and awaiting response'' INFO,
        SendInitialize demo_initialize_params,
        NotifyInitialized (JDict []), ServerShutdown, ServerStop]
   \<and> {OnRequest ''client/registerCapability'' H_register_capability_handler,
       OnNotification ''language/status'' H_lang_status_handler,
       OnNotification ''window/logMessage'' H_window_log_message,
       OnRequest ''workspace/executeClientCommand'' H_execute_client_command_handler,
       OnNotification ''$/progress'' H_do_nothing,
       OnNotification ''textDocument/publishDiagnostics'' H_do_nothing,
       OnNotification ''language/actionableNotification'' H_do_nothing}
      \<subseteq> set (handler_registrations
               @ [Log ''Starting XcodeBuildServer server process'' INFO, ServerStart,
                  Log ''Sending initialize request from LSP client to LSP server and awaiting response'' INFO])"
proof -
  let ?pre = "handler_registrations
               @ [Log ''Starting XcodeBuildServer server process'' INFO, ServerStart,
                  Log ''Sending initialize request from LSP client to LSP server and awaiting response'' INFO]"
  let ?post = "[NotifyInitialized (JDict []), ServerShutdown, ServerStop]"
  have run: "snd (snd (start_server demo_env (io_return ()) demo_idle))
               = ?pre @ SendInitialize demo_initialize_params # ?post"
    by (simp add: demo_start_server demo_handshake_events_def)
  from seven_handlers_registered_before_initialize [of demo_env "io_return ()" demo_idle,
      THEN conjunct2, THEN conjunct1, rule_format, OF run]
  have sub: "{OnRequest ''client/registerCapability'' H_register_capability_handler,
       OnNotification ''language/status'' H_lang_status_handler,
       OnNotification ''window/logMessage'' H_window_log_message,
       OnRequest ''workspace/executeClientCommand'' H_execute_client_command_handler,
       OnNotification ''$/progress'' H_do_nothing,
       OnNotification ''textDocument/publishDiagnostics'' H_do_nothing,
       OnNotification ''language/actionableNotification'' H_do_nothing} \<subseteq> set ?pre" .
  from run have "snd (snd (start_server demo_env (io_return ()) demo_idle))
     = [OnRequest ''client/registerCapability'' H_register_capability_handler,
        OnNotification ''language/status'' H_lang_status_handler,
        OnNotification ''window/logMessage'' H_window_log_message,
        OnRequest ''workspace/executeClientCommand'' H_execute_client_command_handler,
        OnNotification ''$/progress'' H_do_nothing,
        OnNotification ''textDocument/publishDiagnostics'' H_do_nothing,
        OnNotification ''language/actionableNotification'' H_do_nothing,
        Log ''Starting XcodeBuildServer server process'' INFO,
        ServerStart,
        Log ''Sending initialize request from LSP client to LSP server and awaiting response'' INFO,
        SendInitialize demo_initialize_params,
        NotifyInitialized (JDict []), ServerShutdown, ServerStop]"
    by (simp add: handler_registrations_def)
  with sub show ?thesis by (rule conjI [rotated])
qed


section \<open>Leaving the scope of \<^verbatim>\<open>start_server\<close>\<close>

text \<open>When the handshake succeeds and the body returns, lines 176 and 177 run: the
  shutdown request is sent and then the process is stopped.\<close>

lemma normal_exit_shuts_down:
  assumes "super_start_server_enter env self = Inr self1"
    and "handshake env self1 = (Inr (), self1, evs1)"
    and "body self1 = (Inr (), self2, evs2)"
    and "server_shutdown env = Inr ()"
  shows "snd (snd (start_server env body self))
           = handler_registrations @ evs1 @ evs2 @ [ServerShutdown, ServerStop]"
  using assms
  by (cases "server_stop env";
      cases "super_start_server_exit env
               (case server_stop env of Inl e \<Rightarrow> Some e | Inr u \<Rightarrow> None) self2")
     (simp_all add: start_server_def io_defs io_for_emit)

text \<open>When the body of the scope raises, the exception is raised at the \<^verbatim>\<open>yield\<close> of line
  174, and lines 176 and 177 are not reached: whatever the collaborators do, neither
  \<^verbatim>\<open>shutdown\<close> nor \<^verbatim>\<open>stop\<close> is called.\<close>

lemma handshake_no_shutdown:
  "ServerShutdown \<notin> set (snd (snd (handshake env self)))
   \<and> ServerStop \<notin> set (snd (snd (handshake env self)))"
  by (cases "server_start env"; cases "get_initialize_params env (repository_root_path self)";
      cases "initialize_response env")
     (auto simp: handshake_def io_defs and_then_def py_assert_def split: sum.splits)

lemma body_failure_no_shutdown:
  "(\<exists>e'. fst (start_server env (io_raise e) self) = Inl e')
   \<and> ServerShutdown \<notin> set (snd (snd (start_server env (io_raise e) self)))
   \<and> ServerStop \<notin> set (snd (snd (start_server env (io_raise e) self)))"
proof (cases "super_start_server_enter env self")
  case (Inl e0)
  then show ?thesis
    by (simp add: start_server_def io_defs io_for_emit handler_registrations_def)
next
  case (Inr self1)
  obtain r self2 evs where h: "handshake env self1 = (r, self2, evs)"
    by (cases "handshake env self1") auto
  with handshake_no_shutdown [of env self1]
  have no: "ServerShutdown \<notin> set evs" "ServerStop \<notin> set evs" by simp_all
  show ?thesis
  proof (cases r)
    case (Inl e1)
    with Inr h no show ?thesis
      by (cases "super_start_server_exit env (Some e1) self2")
         (simp_all add: start_server_def io_defs io_for_emit handler_registrations_def)
  next
    case (Inr u)
    with \<open>super_start_server_enter env self = Inr self1\<close> h no show ?thesis
      by (cases "super_start_server_exit env (Some e) self2")
         (simp_all add: start_server_def io_defs io_for_emit handler_registrations_def)
  qed
qed

text \<open>
  C9: on the sample session the handshake succeeds and the body raises; the scope ends
  with the body's exception, and the calls made end with the \<^verbatim>\<open>initialized\<close> notification:
  there is no shutdown request and the server process is not stopped.
\<close>

theorem body_failure_skips_shutdown:
  "start_server demo_env (io_raise (ExternalError ''query failed'')) demo_idle
     = (Inl (ExternalError ''query failed''), demo_idle,
        handler_registrations @ demo_handshake_events @ [NotifyInitialized (JDict [])])"
  by (simp add: start_server_def io_defs io_for_emit demo_base demo_handshake)

section \<open>The file scope of a rename\<close>

text \<open>
  C6: in every execution of \<^verbatim>\<open>request_rename\<close> on a started session, the calls that open
  or close a file are exactly one \<open>DidOpen\<close> of the target file followed by one \<open>DidClose\<close>
  of it. This holds for every \<open>env\<close>: when building the URI raises, when the rename request
  raises, and when the response fails validation, which lines 212 to 226 do after the
  \<^verbatim>\<open>with\<close> block has been left. The closing call is that of \<open>open_file_exit\<close>.
\<close>

theorem did_close_once_after_did_open:
  assumes "server_started self"
  shows "filter is_file_scope_event
           (snd (snd (request_rename env relative_file_path line column new_name self)))
         = [DidOpen relative_file_path, DidClose relative_file_path]"
  using assms
  by (cases "path_as_uri env (os_path_join env (repository_root_path self) relative_file_path)";
      cases "rename_response env")
     (simp_all add: request_rename_def io_defs open_file_enter_def open_file_exit_def
        is_file_scope_event_def)

theorem did_close_once_after_did_open_witness:
  "server_started demo_self
   \<and> request_rename (demo_env\<lparr>rename_response := Inl (ExternalError ''stream closed'')\<rparr>)
        ''a.swift'' 3 4 ''foo'' demo_self
     = (Inl (ExternalError ''stream closed''), demo_self,
        [DidOpen ''a.swift'', SendRename (rename_params ''file:///repo/a.swift'' 3 4 ''foo''),
         DidClose ''a.swift''])
   \<and> filter is_file_scope_event
        (snd (snd (request_rename (demo_env\<lparr>rename_response := Inl (ExternalError ''stream closed'')\<rparr>)
                     ''a.swift'' 3 4 ''foo'' demo_self)))
     = [DidOpen ''a.swift'', DidClose ''a.swift'']"
  using did_close_once_after_did_open
          [of demo_self "demo_env\<lparr>rename_response := Inl (ExternalError ''stream closed'')\<rparr>"
              "''a.swift''" 3 4 "''foo''"]
  by (simp add: demo_self_def demo_env_def request_rename_def io_defs open_file_enter_def
      open_file_exit_def)


section \<open>The result of a workspace symbol search\<close>

lemma copy_fields_other:
  "k \<notin> set names \<Longrightarrow> map_of (copy_fields names item symbol) k = map_of symbol k"
  by (induction names arbitrary: symbol) (auto simp: update_conv' split: option.splits)

lemma workspace_symbol_Inr:
  assumes "workspace_symbol item = Inr symbol"
  shows "\<exists>kvs name kind loc location.
           item = JDict kvs \<and> map_of kvs ''name'' = Some name \<and> map_of kvs ''kind'' = Some kind
           \<and> map_of kvs ''location'' = Some loc
           \<and> (if is_dict loc \<and> py_contains ''range'' loc = Inr True then location = loc
               else \<exists>uri. py_getitem loc ''uri'' = Inr uri \<and> location = JDict [(''uri'', uri)])
           \<and> symbol = JDict (copy_fields [''containerName'', ''tags'', ''data''] kvs
                               [(''name'', name), (''kind'', kind), (''location'', location)])"
  using assms
  by (cases item)
     (auto simp: workspace_symbol_def and_then_def simp del: copy_fields.simps
        split: option.splits sum.splits if_splits)

lemma workspace_symbol_location:
  assumes "workspace_symbol item = Inr symbol"
    and "py_getitem item ''location'' = Inr (JDict loc)"
  shows "if ''range'' \<in> fst ` set loc
         then py_getitem symbol ''location'' = Inr (JDict loc)
         else \<exists>uri. py_getitem (JDict loc) ''uri'' = Inr uri
                \<and> py_getitem symbol ''location'' = Inr (JDict [(''uri'', uri)])"
proof -
  from workspace_symbol_Inr [OF assms(1)] obtain kvs name kind loc' location
    where item: "item = JDict kvs" and loc': "map_of kvs ''location'' = Some loc'"
      and location: "if is_dict loc' \<and> py_contains ''range'' loc' = Inr True then location = loc'
               else \<exists>uri. py_getitem loc' ''uri'' = Inr uri \<and> location = JDict [(''uri'', uri)]"
      and symbol: "symbol = JDict (copy_fields [''containerName'', ''tags'', ''data''] kvs
                               [(''name'', name), (''kind'', kind), (''location'', location)])"
    by blast
  from assms(2) item loc' have [simp]: "loc' = JDict loc" by simp
  have "py_getitem symbol ''location'' = Inr location"
    by (simp add: symbol copy_fields_other del: copy_fields.simps)
  with location show ?thesis by (auto split: if_splits)
qed

lemma workspace_symbols_each:
  "workspace_symbols items ret = Inr symbols \<Longrightarrow>
   \<exists>new. symbols = ret @ new \<and> list_all2 (\<lambda>item symbol. workspace_symbol item = Inr symbol) items new"
proof (induction items arbitrary: ret)
  case Nil
  then show ?case by simp
next
  case (Cons item items)
  then obtain symbol where s: "workspace_symbol item = Inr symbol"
    and rest: "workspace_symbols items (ret @ [symbol]) = Inr symbols"
    by (auto split: sum.splits)
  from Cons.IH [OF rest] obtain new
    where "symbols = (ret @ [symbol]) @ new"
      "list_all2 (\<lambda>item symbol. workspace_symbol item = Inr symbol) items new"
    by blast
  with s show ?case by (intro exI [of _ "symbol # new"]) simp
qed

lemma workspace_symbol_total:
  "is_symbol_item item \<longleftrightarrow> (\<exists>symbol. workspace_symbol item = Inr symbol)"
proof (cases item)
  case (JDict kvs)
  have key: "k \<in> fst ` set kvs \<longleftrightarrow> (\<exists>v. map_of kvs k = Some v)" for k
    by (metis domIff dom_map_of_conv_image_fst not_Some_eq)
  have loc: "k \<in> fst ` set l \<longleftrightarrow> (\<exists>v. map_of l k = Some v)" for k and l :: "(string \<times> json) list"
    by (metis domIff dom_map_of_conv_image_fst not_Some_eq)
  show ?thesis
    unfolding JDict
    by (auto simp: is_symbol_item_def workspace_symbol_def and_then_def key loc
        simp del: copy_fields.simps split: option.splits json.splits)
qed (simp_all add: is_symbol_item_def workspace_symbol_def)


lemma request_workspace_symbols_started:
  assumes "server_started self" and "workspace_symbol_response env = Inr response"
  shows "request_workspace_symbols env query self
           = (workspace_symbols_result response, self,
              [SendWorkspaceSymbol (JDict [(''query'', JStr query)])])"
  using assms by (simp add: request_workspace_symbols_def io_defs)

lemma workspace_symbols_total:
  "list_all is_symbol_item items \<Longrightarrow> \<exists>symbols. workspace_symbols items ret = Inr symbols"
  by (induction items arbitrary: ret) (auto simp: workspace_symbol_total)

text \<open>
  C2: on a started session, a \<^verbatim>\<open>None\<close> response gives the empty list and no error. When
  the response is a list and the call returns symbols, there is one symbol per item, in
  order; for an item whose \<^verbatim>\<open>location\<close> is a dict without \<^verbatim>\<open>range\<close>, the symbol's
  location is the dict with the one key \<^verbatim>\<open>uri\<close> and the item's URI, and for an item whose
  \<^verbatim>\<open>location\<close> is a dict with \<^verbatim>\<open>range\<close>, it is that location unchanged. The call does
  return symbols when every item is a dict with \<^verbatim>\<open>name\<close>, \<^verbatim>\<open>kind\<close> and such a location.
\<close>

theorem workspace_symbols_null_and_locations:
  assumes "server_started self"
  shows "(workspace_symbol_response env = Inr JNull \<longrightarrow>
            fst (request_workspace_symbols env query self) = Inr [])
       \<and> (workspace_symbol_response env = Inr (JList items)
            \<and> fst (request_workspace_symbols env query self) = Inr symbols \<longrightarrow>
          length symbols = length items
          \<and> (\<forall>i<length items. \<forall>loc. py_getitem (items ! i) ''location'' = Inr (JDict loc) \<longrightarrow>
               (if ''range'' \<in> fst ` set loc
                then py_getitem (symbols ! i) ''location'' = Inr (JDict loc)
                else \<exists>uri. py_getitem (JDict loc) ''uri'' = Inr uri
                       \<and> py_getitem (symbols ! i) ''location'' = Inr (JDict [(''uri'', uri)]))))
       \<and> (workspace_symbol_response env = Inr (JList items) \<and> list_all is_symbol_item items \<longrightarrow>
            (\<exists>symbols. fst (request_workspace_symbols env query self) = Inr symbols))"
proof (intro conjI impI)
  assume "workspace_symbol_response env = Inr JNull"
  from request_workspace_symbols_started [OF assms this]
  show "fst (request_workspace_symbols env query self) = Inr []"
    by (simp add: workspace_symbols_result_def)
next
  assume a: "workspace_symbol_response env = Inr (JList items)
            \<and> fst (request_workspace_symbols env query self) = Inr symbols"
  then have "workspace_symbol_response env = Inr (JList items)" ..
  from request_workspace_symbols_started [OF assms this] a
  have "workspace_symbols items [] = Inr symbols"
    by (simp add: workspace_symbols_result_def)
  from workspace_symbols_each [OF this]
  have each: "list_all2 (\<lambda>item symbol. workspace_symbol item = Inr symbol) items symbols"
    by simp
  then show "length symbols = length items"
    by (simp add: list_all2_lengthD)
  show "\<forall>i<length items. \<forall>loc. py_getitem (items ! i) ''location'' = Inr (JDict loc) \<longrightarrow>
               (if ''range'' \<in> fst ` set loc
                then py_getitem (symbols ! i) ''location'' = Inr (JDict loc)
                else \<exists>uri. py_getitem (JDict loc) ''uri'' = Inr uri
                       \<and> py_getitem (symbols ! i) ''location'' = Inr (JDict [(''uri'', uri)]))"
  proof (intro allI impI)
    fix i loc
    assume i: "i < length items" and loc: "py_getitem (items ! i) ''location'' = Inr (JDict loc)"
    from list_all2_nthD [OF each i] have "workspace_symbol (items ! i) = Inr (symbols ! i)" .
    from workspace_symbol_location [OF this loc]
    show "if ''range'' \<in> fst ` set loc
                then py_getitem (symbols ! i) ''location'' = Inr (JDict loc)
                else \<exists>uri. py_getitem (JDict loc) ''uri'' = Inr uri
                       \<and> py_getitem (symbols ! i) ''location'' = Inr (JDict [(''uri'', uri)])" .
  qed
next
  assume b: "workspace_symbol_response env = Inr (JList items) \<and> list_all is_symbol_item items"
  then have "workspace_symbol_response env = Inr (JList items)" ..
  from request_workspace_symbols_started [OF assms this] b workspace_symbols_total [of items "[]"]
  show "\<exists>symbols. fst (request_workspace_symbols env query self) = Inr symbols"
    by (simp add: workspace_symbols_result_def)
qed

theorem workspace_symbols_null_and_locations_witness:
  "server_started demo_self
   \<and> fst (request_workspace_symbols demo_env ''Foo'' demo_self) = Inr []
   \<and> (\<exists>symbols.
        fst (request_workspace_symbols
               (demo_env\<lparr>workspace_symbol_response := Inr demo_symbols_response\<rparr>) ''Foo'' demo_self)
          = Inr symbols
        \<and> length symbols = 2
        \<and> py_getitem (symbols ! 0) ''location'' = Inr (JDict [(''uri'', JStr ''file:///repo/a.swift'')])
        \<and> py_getitem (symbols ! 1) ''location''
            = Inr (JDict [(''uri'', JStr ''file:///repo/b.swift''), (''range'', demo_range)]))"
proof -
  let ?env = "demo_env\<lparr>workspace_symbol_response := Inr demo_symbols_response\<rparr>"
  let ?items =
    "[JDict [(''name'', JStr ''Foo''), (''kind'', JInt 5),
             (''location'', JDict [(''uri'', JStr ''file:///repo/a.swift'')]),
             (''containerName'', JStr ''App'')],
      JDict [(''name'', JStr ''bar''), (''kind'', JInt 12),
             (''location'', JDict [(''uri'', JStr ''file:///repo/b.swift''),
                                    (''range'', demo_range)])]]"
  have started: "server_started demo_self"
    by (simp add: demo_self_def)
  have null: "workspace_symbol_response demo_env = Inr JNull"
    by (simp add: demo_env_def)
  have resp: "workspace_symbol_response ?env = Inr (JList ?items)"
    by (simp add: demo_symbols_response_def)
  have shape: "list_all is_symbol_item ?items"
    by (simp add: is_symbol_item_def)
  from workspace_symbols_null_and_locations [OF started, of demo_env "''Foo''"] null
  have 1: "fst (request_workspace_symbols demo_env ''Foo'' demo_self) = Inr []"
    by blast
  from workspace_symbols_null_and_locations [OF started, of ?env "''Foo''" ?items] resp shape
  obtain symbols where s: "fst (request_workspace_symbols ?env ''Foo'' demo_self) = Inr symbols"
    by blast
  from workspace_symbols_null_and_locations [OF started, of ?env "''Foo''" ?items symbols] resp s
  have len: "length symbols = length ?items"
    and locs: "\<forall>i<length ?items. \<forall>loc. py_getitem (?items ! i) ''location'' = Inr (JDict loc) \<longrightarrow>
               (if ''range'' \<in> fst ` set loc
                then py_getitem (symbols ! i) ''location'' = Inr (JDict loc)
                else \<exists>uri. py_getitem (JDict loc) ''uri'' = Inr uri
                       \<and> py_getitem (symbols ! i) ''location'' = Inr (JDict [(''uri'', uri)]))"
    by blast+
  from locs [rule_format, of 0 "[(''uri'', JStr ''file:///repo/a.swift'')]"]
  have l0: "py_getitem (symbols ! 0) ''location'' = Inr (JDict [(''uri'', JStr ''file:///repo/a.swift'')])"
    by simp
  from locs [rule_format, of 1 "[(''uri'', JStr ''file:///repo/b.swift''), (''range'', demo_range)]"]
  have l1: "py_getitem (symbols ! 1) ''location''
            = Inr (JDict [(''uri'', JStr ''file:///repo/b.swift''), (''range'', demo_range)])"
    by simp
  from started 1 s len l0 l1 show ?thesis by auto
qed

section \<open>Validation of the response shape\<close>

lemma text_edits_closed:
  "text_edits cs edits = (if list_all is_text_edit cs then Inr (edits @ cs) else Inl AssertionError)"
  by (induction cs arbitrary: edits) (auto simp: is_text_edit_def split: json.splits)

lemma rename_changes_bad:
  "\<not> list_all (\<lambda>(uri, edits). is_edit_list edits) items \<Longrightarrow>
   rename_changes items ret = Inl AssertionError"
  by (induction items ret rule: rename_changes.induct)
     (auto simp: is_edit_list_def text_edits_closed split: json.splits)

lemma rename_changes_good:
  "list_all (\<lambda>(uri, edits). is_edit_list edits) items \<Longrightarrow> \<exists>x. rename_changes items ret = Inr x"
  by (induction items ret rule: rename_changes.induct)
     (auto simp: is_edit_list_def text_edits_closed split: json.splits)

lemma key_in_alist: "k \<in> fst ` set kvs \<longleftrightarrow> map_of kvs k \<noteq> None"
  by (simp add: map_of_eq_None_iff)

lemma rename_changes_shape:
  "(\<exists>x. rename_changes items ret = Inr x) \<longleftrightarrow> list_all (\<lambda>(uri, edits). is_edit_list edits) items"
proof (cases "list_all (\<lambda>(uri, edits). is_edit_list edits) items")
  case True
  then show ?thesis using rename_changes_good [of items ret] by simp
next
  case False
  then show ?thesis using rename_changes_bad [of items ret] by simp
qed

lemma rename_result_dict:
  "rename_result (JDict kvs) =
     (case map_of kvs ''changes'' of
        None \<Rightarrow> Inl AssertionError
      | Some v \<Rightarrow> (case v of JDict changes \<Rightarrow> rename_changes changes [] | _ \<Rightarrow> Inl AttributeError))"
  by (simp add: rename_result_def key_in_alist and_then_def split: option.splits json.splits)

lemma rename_result_shape:
  "(\<exists>ret. rename_result response = Inr ret) \<longleftrightarrow> rename_expected_shape response"
proof (cases response)
  case (JDict kvs)
  then show ?thesis
    by (simp add: rename_result_dict rename_expected_shape_def rename_changes_shape
        split: option.splits json.splits)
qed (simp_all add: rename_result_def rename_expected_shape_def)

lemma rename_result_error:
  assumes "\<not> rename_expected_shape response"
  shows "rename_result response
           = Inl (if changes_not_a_dict response then AttributeError else AssertionError)"
proof (cases response)
  case (JDict kvs)
  with assms show ?thesis
    by (simp add: rename_result_dict rename_expected_shape_def changes_not_a_dict_def
        rename_changes_bad split: option.splits json.splits)
qed (simp_all add: rename_result_def changes_not_a_dict_def)

lemma list_all2_left: "list_all2 P xs ys \<Longrightarrow> list_all (\<lambda>x. \<exists>y. P x y) xs"
  by (induction rule: list_all2_induct) auto

lemma workspace_symbols_Inr:
  "(\<exists>symbols. workspace_symbols items ret = Inr symbols) \<longleftrightarrow> list_all is_symbol_item items"
proof
  assume "\<exists>symbols. workspace_symbols items ret = Inr symbols"
  then obtain symbols where "workspace_symbols items ret = Inr symbols" ..
  from workspace_symbols_each [OF this] obtain new
    where "list_all2 (\<lambda>item symbol. workspace_symbol item = Inr symbol) items new" by blast
  from list_all2_left [OF this] show "list_all is_symbol_item items"
    by (simp add: list_all_iff workspace_symbol_total)
qed (rule workspace_symbols_total)

lemma workspace_symbols_result_shape:
  "(\<exists>ret. workspace_symbols_result response = Inr ret) \<longleftrightarrow> symbols_expected_shape response"
  by (cases response)
     (simp_all add: workspace_symbols_result_def symbols_expected_shape_def workspace_symbols_Inr)

lemma py_getitem_error: "py_getitem x k = Inl e \<Longrightarrow> e \<noteq> AssertionError"
  by (cases x) (auto split: option.splits)

lemma workspace_symbol_error:
  "workspace_symbol item = Inl e \<Longrightarrow> e = AssertionError \<longleftrightarrow> \<not> is_dict item"
  by (cases item)
     (auto simp: workspace_symbol_def and_then_def simp del: copy_fields.simps
        split: option.splits sum.splits if_splits json.splits dest: py_getitem_error)

lemma workspace_symbols_first_bad:
  "list_all is_symbol_item pre \<Longrightarrow> workspace_symbol item = Inl e \<Longrightarrow>
   workspace_symbols (pre @ item # post) ret = Inl e"
  by (induction pre arbitrary: ret) (auto simp: workspace_symbol_total)


lemma py_getitem_error_class: "py_getitem x k = Inl e \<Longrightarrow> e = TypeError \<or> e = KeyError k"
  by (cases x) (auto split: option.splits)

lemma workspace_symbol_error_class:
  assumes "workspace_symbol item = Inl e"
  shows "if is_dict item
         then e = TypeError \<or> e \<in> KeyError ` {''name'', ''kind'', ''location'', ''uri''}
         else e = AssertionError"
proof (cases item)
  case (JDict kvs)
  with assms show ?thesis
    by (auto simp: workspace_symbol_def and_then_def simp del: copy_fields.simps
        split: option.splits sum.splits if_splits dest: py_getitem_error_class)
qed (use assms in \<open>simp_all add: workspace_symbol_def\<close>)

text \<open>
  C7, as amended: each translation returns a result exactly when the response has the
  expected shape, and raises otherwise. For a rename the error is an \<^verbatim>\<open>AssertionError\<close>
  (the response is no dict, has no \<^verbatim>\<open>changes\<close>, maps a URI to something that is no list,
  or has an entry that is no dict with \<^verbatim>\<open>range\<close> and \<^verbatim>\<open>newText\<close>), except that a
  \<^verbatim>\<open>changes\<close> which is no dict raises an \<^verbatim>\<open>AttributeError\<close>. For a workspace symbol
  search a response that is neither \<^verbatim>\<open>None\<close> nor a list raises an \<^verbatim>\<open>AssertionError\<close>, and in
  a list the first item that cannot be translated decides: an \<^verbatim>\<open>AssertionError\<close> when it
  is no dict; when it is a dict, a \<^verbatim>\<open>KeyError\<close> for \<^verbatim>\<open>name\<close>, \<^verbatim>\<open>kind\<close>, \<^verbatim>\<open>location\<close> or
  \<^verbatim>\<open>uri\<close>, or a \<^verbatim>\<open>TypeError\<close>.
\<close>

theorem response_shape_validation:
  "((\<exists>ret. rename_result response = Inr ret) \<longleftrightarrow> rename_expected_shape response)
   \<and> (\<not> rename_expected_shape response \<longrightarrow>
        rename_result response
          = Inl (if changes_not_a_dict response then AttributeError else AssertionError))
   \<and> ((\<exists>ret. workspace_symbols_result response = Inr ret) \<longleftrightarrow> symbols_expected_shape response)
   \<and> (response \<noteq> JNull \<and> \<not> is_list response \<longrightarrow>
        workspace_symbols_result response = Inl AssertionError)
   \<and> (\<forall>pre item post.
        response = JList (pre @ item # post) \<and> list_all is_symbol_item pre \<and> \<not> is_symbol_item item \<longrightarrow>
        (\<exists>e. workspace_symbols_result response = Inl e
           \<and> (e = AssertionError \<longleftrightarrow> \<not> is_dict item)
           \<and> (is_dict item \<longrightarrow>
                e = TypeError \<or> e \<in> KeyError ` {''name'', ''kind'', ''location'', ''uri''})))"
proof (intro conjI allI impI)
  show "(\<exists>ret. rename_result response = Inr ret) \<longleftrightarrow> rename_expected_shape response"
    by (rule rename_result_shape)
  show "(\<exists>ret. workspace_symbols_result response = Inr ret) \<longleftrightarrow> symbols_expected_shape response"
    by (rule workspace_symbols_result_shape)
next
  assume "\<not> rename_expected_shape response"
  then show "rename_result response
          = Inl (if changes_not_a_dict response then AttributeError else AssertionError)"
    by (rule rename_result_error)
next
  assume "response \<noteq> JNull \<and> \<not> is_list response"
  then show "workspace_symbols_result response = Inl AssertionError"
    by (cases response) (simp_all add: workspace_symbols_result_def)
next
  fix pre item post
  assume a: "response = JList (pre @ item # post) \<and> list_all is_symbol_item pre
             \<and> \<not> is_symbol_item item"
  then obtain e where e: "workspace_symbol item = Inl e"
    using workspace_symbol_total [of item] by (cases "workspace_symbol item") auto
  from a e have "workspace_symbols_result response = Inl e"
    by (simp add: workspace_symbols_result_def workspace_symbols_first_bad)
  with workspace_symbol_error [OF e] workspace_symbol_error_class [OF e]
  show "\<exists>e. workspace_symbols_result response = Inl e
           \<and> (e = AssertionError \<longleftrightarrow> \<not> is_dict item)
           \<and> (is_dict item \<longrightarrow>
                e = TypeError \<or> e \<in> KeyError ` {''name'', ''kind'', ''location'', ''uri''})"
    by (simp split: if_splits)
qed

theorem response_shape_validation_witness:
  "\<not> rename_expected_shape (JDict [(''changes'', JDict [(''file:///a.swift'', JInt 5)])])
   \<and> rename_result (JDict [(''changes'', JDict [(''file:///a.swift'', JInt 5)])]) = Inl AssertionError
   \<and> \<not> rename_expected_shape (JDict [(''changes'', JList [])])
   \<and> rename_result (JDict [(''changes'', JList [])]) = Inl AttributeError
   \<and> JStr ''symbols'' \<noteq> JNull \<and> \<not> is_list (JStr ''symbols'')
   \<and> workspace_symbols_result (JStr ''symbols'') = Inl AssertionError
   \<and> (\<exists>e. workspace_symbols_result (JList ([] @ JInt 5 # [])) = Inl e \<and> e = AssertionError)
   \<and> (\<exists>e. workspace_symbols_result (JList ([] @ JDict [(''name'', JStr ''Foo'')] # [])) = Inl e
          \<and> (e = TypeError \<or> e \<in> KeyError ` {''name'', ''kind'', ''location'', ''uri''}))"
proof -
  let ?r1 = "JDict [(''changes'', JDict [(''file:///a.swift'', JInt 5)])]"
  let ?r2 = "JDict [(''changes'', JList [])]"
  let ?item = "JDict [(''name'', JStr ''Foo'')]"
  have s1: "\<not> rename_expected_shape ?r1" and c1: "\<not> changes_not_a_dict ?r1"
    by (simp_all add: rename_expected_shape_def changes_not_a_dict_def is_edit_list_def)
  have s2: "\<not> rename_expected_shape ?r2" and c2: "changes_not_a_dict ?r2"
    by (simp_all add: rename_expected_shape_def changes_not_a_dict_def)
  from response_shape_validation [of ?r1, THEN conjunct2, THEN conjunct1] s1 c1
  have 1: "rename_result ?r1 = Inl AssertionError" by simp
  from response_shape_validation [of ?r2, THEN conjunct2, THEN conjunct1] s2 c2
  have 2: "rename_result ?r2 = Inl AttributeError" by simp
  have s3: "JStr ''symbols'' \<noteq> JNull \<and> \<not> is_list (JStr ''symbols'')" by simp
  with response_shape_validation [of "JStr ''symbols''", THEN conjunct2, THEN conjunct2,
      THEN conjunct2, THEN conjunct1]
  have 3: "workspace_symbols_result (JStr ''symbols'') = Inl AssertionError" by blast
  have i4: "\<not> is_symbol_item (JInt 5)" "\<not> is_dict (JInt 5)"
    and i5: "\<not> is_symbol_item ?item" "is_dict ?item"
    by (simp_all add: is_symbol_item_def)
  from response_shape_validation [of "JList ([] @ JInt 5 # [])", THEN conjunct2, THEN conjunct2,
      THEN conjunct2, THEN conjunct2, rule_format, of "[]" "JInt 5" "[]"] i4
  have 4: "\<exists>e. workspace_symbols_result (JList ([] @ JInt 5 # [])) = Inl e \<and> e = AssertionError"
    by auto
  from response_shape_validation [of "JList ([] @ ?item # [])", THEN conjunct2, THEN conjunct2,
      THEN conjunct2, THEN conjunct2, rule_format, of "[]" ?item "[]"] i5
  have 5: "\<exists>e. workspace_symbols_result (JList ([] @ ?item # [])) = Inl e
          \<and> (e = TypeError \<or> e \<in> KeyError ` {''name'', ''kind'', ''location'', ''uri''})"
    by auto
  from s1 1 s2 2 s3 3 4 5 show ?thesis by blast
qed

text \<open>
  C7, as stated, fails: these two responses do not have the expected shape, and the error
  raised is not an \<^verbatim>\<open>AssertionError\<close>. \<^verbatim>\<open>{"changes": None}\<close> reaches \<^verbatim>\<open>None.items()\<close>, and
  in \<^verbatim>\<open>[{}, 5]\<close> the first item has no \<^verbatim>\<open>name\<close> before the item that is no dict is
  looked at.
\<close>

theorem shape_mismatch_other_errors:
  "\<not> rename_expected_shape (JDict [(''changes'', JNull)])
   \<and> rename_result (JDict [(''changes'', JNull)]) = Inl AttributeError
   \<and> \<not> symbols_expected_shape (JList [JDict [], JInt 5])
   \<and> workspace_symbols_result (JList [JDict [], JInt 5]) = Inl (KeyError ''name'')"
  by (simp add: rename_expected_shape_def rename_result_def and_then_def
      symbols_expected_shape_def is_symbol_item_def workspace_symbols_result_def
      workspace_symbol_def)

section \<open>The handler of \<^verbatim>\<open>client/registerCapability\<close>\<close>

lemma register_capability_step_closed:
  "register_capability_step registration self =
     (case py_getitem registration ''method'' of
        Inl e \<Rightarrow> (Inl e, self, [])
      | Inr method \<Rightarrow>
          if \<not> py_eq method (JStr ''textDocument/completion'') then (Inr (), self, [])
          else
            (case register_option registration ''resolveProvider'' of
               Inl e \<Rightarrow> (Inl e, self, [])
             | Inr resolve \<Rightarrow>
                 if \<not> py_eq resolve (JBool True) then (Inl AssertionError, self, [])
                 else
                   (case register_option registration ''triggerCharacters'' of
                      Inl e \<Rightarrow> (Inl e, self, [])
                    | Inr triggers \<Rightarrow>
                        if \<not> py_eq triggers
                             (JList [JStr ''.'', JStr ''@'', JStr ''#'', JStr ''*'', JStr '' ''])
                        then (Inl AssertionError, self, [])
                        else (Inr (), self\<lparr>completions_available := True\<rparr>, []))))"
  by (simp add: register_capability_step_def register_option_def io_defs py_assert_def
      completion_trigger_characters_def split: sum.splits)

lemma register_option_error_class:
  "register_option registration name = Inl e \<Longrightarrow>
   e = TypeError \<or> e = KeyError ''registerOptions'' \<or> e = KeyError name"
  by (auto simp: register_option_def and_then_def split: sum.splits
      dest: py_getitem_error_class)

lemma step_accepted:
  assumes "accepted_registration registration"
  shows "register_capability_step registration self =
           (Inr (),
            if is_completion_registration registration
            then self\<lparr>completions_available := True\<rparr> else self,
            [])"
  using assms
  by (auto simp: register_capability_step_closed accepted_registration_def
      is_completion_registration_def options_match_def split: sum.splits)

lemma step_rejected:
  assumes "\<not> accepted_registration registration"
  shows "\<exists>e. (\<forall>self. register_capability_step registration self = (Inl e, self, []))
           \<and> (e = AssertionError \<longleftrightarrow>
                is_completion_registration registration \<and> options_differ registration)
           \<and> (e \<noteq> AssertionError \<longrightarrow>
                e = TypeError \<or>
                e \<in> KeyError ` {''method'', ''registerOptions'', ''resolveProvider'',
                                 ''triggerCharacters''})"
proof (cases "py_getitem registration ''method''")
  case (Inl e)
  with py_getitem_error_class [OF Inl] show ?thesis
    by (auto simp: register_capability_step_closed is_completion_registration_def)
next
  case meth: (Inr m)
  with assms have completion: "py_eq m (JStr ''textDocument/completion'')"
    and no_match: "\<not> options_match registration"
    by (simp_all add: accepted_registration_def)
  show ?thesis
  proof (cases "register_option registration ''resolveProvider''")
    case (Inl e)
    with register_option_error_class [OF Inl] meth completion show ?thesis
      by (auto simp: register_capability_step_closed is_completion_registration_def
          options_differ_def)
  next
    case resolve: (Inr resolve)
    show ?thesis
    proof (cases "py_eq resolve (JBool True)")
      case False
      with meth completion resolve show ?thesis
        by (simp add: register_capability_step_closed is_completion_registration_def
            options_differ_def)
    next
      case True
      show ?thesis
      proof (cases "register_option registration ''triggerCharacters''")
        case (Inl e)
        with register_option_error_class [OF Inl] meth completion resolve True show ?thesis
          by (auto simp: register_capability_step_closed is_completion_registration_def
              options_differ_def)
      next
        case (Inr triggers)
        with meth completion resolve True no_match show ?thesis
          by (simp add: register_capability_step_closed is_completion_registration_def
              options_differ_def options_match_def)
      qed
    qed
  qed
qed

lemma step_returns:
  assumes "register_capability_step registration self = (Inr u, self', evs)"
  shows "accepted_registration registration"
proof (rule ccontr)
  assume "\<not> accepted_registration registration"
  from step_rejected [OF this] assms show False by auto
qed

lemma loop_accepted:
  "list_all accepted_registration registrations \<Longrightarrow>
   io_for register_capability_step registrations self
     = (Inr (),
        if \<exists>r\<in>set registrations. is_completion_registration r
        then self\<lparr>completions_available := True\<rparr> else self,
        [])"
  by (induction registrations arbitrary: self) (auto simp: step_accepted)

lemma loop_first_rejected:
  "list_all accepted_registration pre \<Longrightarrow>
   \<forall>self. register_capability_step registration self = (Inl e, self, []) \<Longrightarrow>
   fst (io_for register_capability_step (pre @ registration # post) self) = Inl e"
proof (induction pre arbitrary: self)
  case Nil
  then show ?case by simp
next
  case (Cons r pre)
  from Cons.prems(1) have "accepted_registration r" "list_all accepted_registration pre"
    by simp_all
  from step_accepted [OF this(1)] Cons.IH [OF this(2) Cons.prems(2)]
  show ?case by (simp split: prod.splits)
qed

lemma first_rejected:
  assumes "\<not> list_all accepted_registration registrations"
  shows "\<exists>pre registration post. registrations = pre @ registration # post
           \<and> list_all accepted_registration pre \<and> \<not> accepted_registration registration"
proof -
  from assms have "\<exists>r\<in>set registrations. \<not> accepted_registration r"
    by (simp add: list_all_iff)
  from split_list_first_prop [OF this] show ?thesis
    by (auto simp: list_all_iff)
qed

lemma handler_closed:
  assumes "py_getitem params ''registrations'' = Inr (JList registrations)"
  shows "register_capability_handler params self =
           (case io_for register_capability_step registrations self of
              (Inl e, self', evs) \<Rightarrow> (Inl e, self', evs)
            | (Inr u, self', evs) \<Rightarrow> (Inr JNull, self', evs))"
proof -
  from py_getitem_Inr [OF assms] obtain kvs
    where "params = JDict kvs" "map_of kvs ''registrations'' = Some (JList registrations)"
    by blast
  moreover from this have "''registrations'' \<in> fst ` set kvs"
    by (simp add: key_in_alist)
  ultimately show ?thesis
    by (simp add: register_capability_handler_def io_defs and_then_def py_assert_def
        split: prod.splits sum.splits)
qed


lemma loop_state:
  "io_for register_capability_step registrations self = (r, self', evs) \<Longrightarrow>
   evs = [] \<and> (self' = self \<or>
     self' = self\<lparr>completions_available := True\<rparr>
     \<and> (\<exists>r\<in>set registrations. is_completion_registration r \<and> options_match r))"
proof (induction registrations arbitrary: self self' evs r)
  case Nil
  then show ?case by simp
next
  case (Cons registration registrations)
  show ?case
  proof (cases "accepted_registration registration")
    case False
    from step_rejected [OF this] Cons.prems show ?thesis by auto
  next
    case True
    obtain r2 self2 evs2
      where l: "io_for register_capability_step registrations
                  (if is_completion_registration registration
                   then self\<lparr>completions_available := True\<rparr> else self) = (r2, self2, evs2)"
      by (metis prod_cases3)
    from Cons.IH [OF l]
    have ih: "evs2 = []"
      "self2 = (if is_completion_registration registration
                then self\<lparr>completions_available := True\<rparr> else self)
       \<or> self2 = (if is_completion_registration registration
                   then self\<lparr>completions_available := True\<rparr> else self)
                  \<lparr>completions_available := True\<rparr>
         \<and> (\<exists>r\<in>set registrations. is_completion_registration r \<and> options_match r)"
      by simp_all
    from Cons.prems step_accepted [OF True, of self] l
    have res: "self' = self2" "evs = evs2" by simp_all
    from True have m: "is_completion_registration registration \<longrightarrow> options_match registration"
      by (auto simp: accepted_registration_def is_completion_registration_def split: sum.splits)
    from ih res m show ?thesis by (auto split: if_splits)
  qed
qed

lemma accepted_all:
  "list_all accepted_registration registrations \<Longrightarrow>
   \<forall>r\<in>set registrations. is_completion_registration r \<longrightarrow> options_match r"
proof (intro ballI impI)
  fix r
  assume all: "list_all accepted_registration registrations" and r: "r \<in> set registrations"
    and c: "is_completion_registration r"
  from all r have "accepted_registration r" by (simp add: list_all_iff)
  with c show "options_match r"
    by (cases "py_getitem r ''method''")
       (simp_all add: accepted_registration_def is_completion_registration_def)
qed

lemma handler_state:
  assumes "py_getitem params ''registrations'' = Inr (JList registrations)"
  shows "snd (snd (register_capability_handler params self)) = []
       \<and> (fst (snd (register_capability_handler params self)) = self
            \<or> fst (snd (register_capability_handler params self))
                 = self\<lparr>completions_available := True\<rparr>
              \<and> (\<exists>r\<in>set registrations. is_completion_registration r \<and> options_match r))"
proof -
  obtain r self' evs
    where loop: "io_for register_capability_step registrations self = (r, self', evs)"
    by (cases "io_for register_capability_step registrations self") auto
  from handler_closed [OF assms, of self] loop
  have "snd (snd (register_capability_handler params self)) = evs"
    and "fst (snd (register_capability_handler params self)) = self'"
    by (cases r; simp)+
  with loop_state [OF loop] show ?thesis by simp
qed


lemma handler_accepted:
  assumes "py_getitem params ''registrations'' = Inr (JList registrations)"
    and "list_all accepted_registration registrations"
  shows "register_capability_handler params self
           = (Inr JNull,
              if \<exists>r\<in>set registrations. is_completion_registration r
              then self\<lparr>completions_available := True\<rparr> else self,
              [])"
  using loop_accepted [OF assms(2), of self] handler_closed [OF assms(1), of self] by simp

lemma handler_rejected:
  assumes "py_getitem params ''registrations'' = Inr (JList registrations)"
    and "registrations = pre @ registration # post"
    and "list_all accepted_registration pre"
    and "\<not> accepted_registration registration"
  shows "\<exists>e. fst (register_capability_handler params self) = Inl e
           \<and> (e = AssertionError \<longleftrightarrow>
                is_completion_registration registration \<and> options_differ registration)
           \<and> (e \<noteq> AssertionError \<longrightarrow>
                e = TypeError \<or>
                e \<in> KeyError ` {''method'', ''registerOptions'', ''resolveProvider'',
                                 ''triggerCharacters''})"
proof -
  from step_rejected [OF assms(4)] obtain e
    where all: "(\<forall>self. register_capability_step registration self = (Inl e, self, []))
      \<and> (e = AssertionError \<longleftrightarrow>
           is_completion_registration registration \<and> options_differ registration)
      \<and> (e \<noteq> AssertionError \<longrightarrow>
           e = TypeError \<or>
           e \<in> KeyError ` {''method'', ''registerOptions'', ''resolveProvider'',
                            ''triggerCharacters''})" ..
  note e = all [THEN conjunct1] and cls = all [THEN conjunct2]
  have loop: "fst (io_for register_capability_step registrations self) = Inl e"
    unfolding assms(2) using assms(3) e by (rule loop_first_rejected)
  obtain r self' evs
    where res: "io_for register_capability_step registrations self = (r, self', evs)"
    by (rule prod_cases3)
  from loop res have r: "r = Inl e" by simp
  have h: "fst (register_capability_handler params self) = Inl e"
    unfolding handler_closed [OF assms(1), of self] res r by simp
  show ?thesis
    by (rule exI [of _ e]) (rule conjI [OF h cls])
qed

lemma handler_returns_iff:
  assumes "py_getitem params ''registrations'' = Inr (JList registrations)"
  shows "(\<exists>ret. fst (register_capability_handler params self) = Inr ret) \<longleftrightarrow>
           list_all accepted_registration registrations"
proof
  assume ret: "\<exists>ret. fst (register_capability_handler params self) = Inr ret"
  show "list_all accepted_registration registrations"
  proof (rule ccontr)
    assume "\<not> list_all accepted_registration registrations"
    from first_rejected [OF this] obtain pre registration post
      where "registrations = pre @ registration # post" "list_all accepted_registration pre"
        "\<not> accepted_registration registration"
      by blast
    from handler_rejected [OF assms this, of self] obtain e
      where "fst (register_capability_handler params self) = Inl e
           \<and> (e = AssertionError \<longleftrightarrow>
                is_completion_registration registration \<and> options_differ registration)
           \<and> (e \<noteq> AssertionError \<longrightarrow>
                e = TypeError \<or>
                e \<in> KeyError ` {''method'', ''registerOptions'', ''resolveProvider'',
                                 ''triggerCharacters''})" ..
    then have "fst (register_capability_handler params self) = Inl e" ..
    with ret show False by simp
  qed
next
  assume "list_all accepted_registration registrations"
  from handler_accepted [OF assms this, of self]
  show "\<exists>ret. fst (register_capability_handler params self) = Inr ret" by simp
qed

text \<open>
  C10, as amended: for \<^verbatim>\<open>params\<close> whose \<^verbatim>\<open>registrations\<close> is a list, the handler does not
  always return. It returns (\<^verbatim>\<open>None\<close>) exactly when every registration is accepted: each has
  a method, and each registration for \<^verbatim>\<open>textDocument/completion\<close> has
  \<^verbatim>\<open>resolveProvider == True\<close> and \<^verbatim>\<open>triggerCharacters\<close> equal to the list of \<^verbatim>\<open>.\<close>, \<^verbatim>\<open>@\<close>,
  \<^verbatim>\<open>#\<close>, \<^verbatim>\<open>*\<close> and the space. Otherwise it raises at the first registration that is not
  accepted: an \<^verbatim>\<open>AssertionError\<close> exactly when that one is a completion registration whose
  options differ, and else a \<^verbatim>\<open>TypeError\<close> or a \<^verbatim>\<open>KeyError\<close> for \<^verbatim>\<open>method\<close>,
  \<^verbatim>\<open>registerOptions\<close>, \<^verbatim>\<open>resolveProvider\<close> or \<^verbatim>\<open>triggerCharacters\<close>. The handler makes no
  call, and the only change to the object is that \<^verbatim>\<open>completions_available\<close> is set, which
  happens only when a completion registration with matching options is present.
  Registrations for other methods alone are accepted and leave the object as it was.
\<close>

theorem register_capability_handler_checks:
  assumes "py_getitem params ''registrations'' = Inr (JList registrations)"
  shows "((\<exists>ret. fst (register_capability_handler params self) = Inr ret) \<longleftrightarrow>
            list_all accepted_registration registrations)
       \<and> (\<forall>ret. fst (register_capability_handler params self) = Inr ret \<longrightarrow>
            ret = JNull
            \<and> (\<forall>r\<in>set registrations. is_completion_registration r \<longrightarrow> options_match r))
       \<and> (list_all accepted_registration registrations \<longrightarrow>
            register_capability_handler params self
              = (Inr JNull,
                 if \<exists>r\<in>set registrations. is_completion_registration r
                 then self\<lparr>completions_available := True\<rparr> else self,
                 []))
       \<and> (\<forall>pre registration post.
            registrations = pre @ registration # post \<and> list_all accepted_registration pre
            \<and> \<not> accepted_registration registration \<longrightarrow>
            (\<exists>e. fst (register_capability_handler params self) = Inl e
               \<and> (e = AssertionError \<longleftrightarrow>
                    is_completion_registration registration \<and> options_differ registration)
               \<and> (e \<noteq> AssertionError \<longrightarrow>
                    e = TypeError \<or>
                    e \<in> KeyError ` {''method'', ''registerOptions'', ''resolveProvider'',
                                     ''triggerCharacters''})))
       \<and> snd (snd (register_capability_handler params self)) = []
       \<and> (fst (snd (register_capability_handler params self)) = self
            \<or> fst (snd (register_capability_handler params self))
                 = self\<lparr>completions_available := True\<rparr>
              \<and> (\<exists>r\<in>set registrations. is_completion_registration r \<and> options_match r))
       \<and> ((\<forall>r\<in>set registrations. accepted_registration r \<and> \<not> is_completion_registration r) \<longrightarrow>
            register_capability_handler params self = (Inr JNull, self, []))"
proof (intro conjI)
  show "(\<exists>ret. fst (register_capability_handler params self) = Inr ret) \<longleftrightarrow>
            list_all accepted_registration registrations"
    using assms by (rule handler_returns_iff)
next
  show "\<forall>ret. fst (register_capability_handler params self) = Inr ret \<longrightarrow>
            ret = JNull
            \<and> (\<forall>r\<in>set registrations. is_completion_registration r \<longrightarrow> options_match r)"
  proof (intro allI impI)
    fix ret
    assume ret: "fst (register_capability_handler params self) = Inr ret"
    then have "\<exists>ret. fst (register_capability_handler params self) = Inr ret" ..
    with handler_returns_iff [OF assms, of self]
    have all: "list_all accepted_registration registrations" by simp
    from handler_accepted [OF assms all, of self] ret have "ret = JNull" by simp
    then show "ret = JNull
            \<and> (\<forall>r\<in>set registrations. is_completion_registration r \<longrightarrow> options_match r)"
      using accepted_all [OF all] by (rule conjI)
  qed
next
  show "list_all accepted_registration registrations \<longrightarrow>
            register_capability_handler params self
              = (Inr JNull,
                 if \<exists>r\<in>set registrations. is_completion_registration r
                 then self\<lparr>completions_available := True\<rparr> else self,
                 [])"
    using handler_accepted [OF assms] by (rule impI)
next
  show "\<forall>pre registration post.
            registrations = pre @ registration # post \<and> list_all accepted_registration pre
            \<and> \<not> accepted_registration registration \<longrightarrow>
            (\<exists>e. fst (register_capability_handler params self) = Inl e
               \<and> (e = AssertionError \<longleftrightarrow>
                    is_completion_registration registration \<and> options_differ registration)
               \<and> (e \<noteq> AssertionError \<longrightarrow>
                    e = TypeError \<or>
                    e \<in> KeyError ` {''method'', ''registerOptions'', ''resolveProvider'',
                                     ''triggerCharacters''}))"
  proof (intro allI impI)
    fix pre registration post
    assume a: "registrations = pre @ registration # post \<and> list_all accepted_registration pre
            \<and> \<not> accepted_registration registration"
    note a1 = a [THEN conjunct1] and a2 = a [THEN conjunct2, THEN conjunct1]
      and a3 = a [THEN conjunct2, THEN conjunct2]
    from assms a1 a2 a3
    show "\<exists>e. fst (register_capability_handler params self) = Inl e
               \<and> (e = AssertionError \<longleftrightarrow>
                    is_completion_registration registration \<and> options_differ registration)
               \<and> (e \<noteq> AssertionError \<longrightarrow>
                    e = TypeError \<or>
                    e \<in> KeyError ` {''method'', ''registerOptions'', ''resolveProvider'',
                                     ''triggerCharacters''})"
      by (rule handler_rejected)
  qed
next
  show "snd (snd (register_capability_handler params self)) = []"
    using handler_state [OF assms, of self] by (rule conjunct1)
next
  show "fst (snd (register_capability_handler params self)) = self
            \<or> fst (snd (register_capability_handler params self))
                 = self\<lparr>completions_available := True\<rparr>
              \<and> (\<exists>r\<in>set registrations. is_completion_registration r \<and> options_match r)"
    using handler_state [OF assms, of self] by (rule conjunct2)
next
  show "(\<forall>r\<in>set registrations. accepted_registration r \<and> \<not> is_completion_registration r) \<longrightarrow>
            register_capability_handler params self = (Inr JNull, self, [])"
  proof
    assume other: "\<forall>r\<in>set registrations. accepted_registration r \<and> \<not> is_completion_registration r"
    then have all: "list_all accepted_registration registrations"
      and none: "\<not> (\<exists>r\<in>set registrations. is_completion_registration r)"
      by (simp_all add: list_all_iff)
    from handler_accepted [OF assms all, of self] none
    show "register_capability_handler params self = (Inr JNull, self, [])" by simp
  qed
qed

theorem register_capability_handler_checks_witness:
  "register_capability_handler
     (demo_registrations (JList [JStr ''.'', JStr ''@'', JStr ''#'', JStr ''*'', JStr '' '']))
     demo_self
     = (Inr JNull, demo_self\<lparr>completions_available := True\<rparr>, [])
   \<and> (\<exists>e. fst (register_capability_handler (demo_registrations (JList [JStr ''.''])) demo_self)
            = Inl e \<and> e = AssertionError)
   \<and> (\<exists>e. fst (register_capability_handler (demo_registrations JNull) demo_self) = Inl e
          \<and> e = AssertionError)"
proof -
  let ?other = "JDict [(''id'', JStr ''1''), (''method'', JStr ''workspace/didChangeWatchedFiles'')]"
  let ?completion = "\<lambda>triggers.
    JDict [(''id'', JStr ''2''), (''method'', JStr ''textDocument/completion''),
           (''registerOptions'',
            JDict [(''resolveProvider'', JBool True), (''triggerCharacters'', triggers)])]"
  let ?five = "JList [JStr ''.'', JStr ''@'', JStr ''#'', JStr ''*'', JStr '' '']"
  have regs: "py_getitem (demo_registrations triggers) ''registrations''
                = Inr (JList [?other, ?completion triggers])" for triggers
    by (simp add: demo_registrations_def)
  have other: "accepted_registration ?other" "\<not> is_completion_registration ?other"
    by (simp_all add: accepted_registration_def is_completion_registration_def)
  have completion: "is_completion_registration (?completion triggers)" for triggers
    by (simp add: is_completion_registration_def)
  have good: "accepted_registration (?completion ?five)"
    by (simp add: accepted_registration_def options_match_def register_option_def and_then_def)
  have bad: "\<not> accepted_registration (?completion (JList [JStr ''.'']))"
      "options_differ (?completion (JList [JStr ''.'']))"
    and null: "\<not> accepted_registration (?completion JNull)"
      "options_differ (?completion JNull)"
    by (simp_all add: accepted_registration_def options_match_def options_differ_def
        register_option_def and_then_def)
  from other good have all: "list_all accepted_registration [?other, ?completion ?five]"
    by simp
  from register_capability_handler_checks [OF regs, of ?five demo_self,
      THEN conjunct2, THEN conjunct2, THEN conjunct1, rule_format, OF all] completion [of ?five]
  have 1: "register_capability_handler (demo_registrations ?five) demo_self
     = (Inr JNull, demo_self\<lparr>completions_available := True\<rparr>, [])"
    by simp
  have rejected: "\<exists>e. fst (register_capability_handler (demo_registrations triggers) demo_self)
                        = Inl e \<and> e = AssertionError"
    if bad: "\<not> accepted_registration (?completion triggers)"
      and differ: "options_differ (?completion triggers)" for triggers
  proof -
    have "[?other, ?completion triggers] = [?other] @ ?completion triggers # []
          \<and> list_all accepted_registration [?other]
          \<and> \<not> accepted_registration (?completion triggers)"
      using other(1) bad by simp
    from register_capability_handler_checks [OF regs, of triggers demo_self,
        THEN conjunct2, THEN conjunct2, THEN conjunct2, THEN conjunct1, rule_format, OF this]
    obtain e
      where e: "fst (register_capability_handler (demo_registrations triggers) demo_self) = Inl e
        \<and> (e = AssertionError \<longleftrightarrow>
             is_completion_registration (?completion triggers)
             \<and> options_differ (?completion triggers))
        \<and> (e \<noteq> AssertionError \<longrightarrow>
             e = TypeError \<or>
             e \<in> KeyError ` {''method'', ''registerOptions'', ''resolveProvider'',
                              ''triggerCharacters''})" ..
    from e [THEN conjunct2, THEN conjunct1] completion [of triggers] differ
    have "e = AssertionError" by (simp only: simp_thms)
    with e [THEN conjunct1] show ?thesis by (intro exI [of _ e] conjI)
  qed
  from rejected [OF bad] have 2:
    "\<exists>e. fst (register_capability_handler (demo_registrations (JList [JStr ''.''])) demo_self)
            = Inl e \<and> e = AssertionError" .
  from rejected [OF null] have 3:
    "\<exists>e. fst (register_capability_handler (demo_registrations JNull) demo_self) = Inl e
          \<and> e = AssertionError" .
  from 1 2 3 show ?thesis by (intro conjI)
qed

text \<open>
  C10, as stated, fails: this completion registration has options other than the expected
  ones, its \<^verbatim>\<open>registerOptions\<close> holding no \<^verbatim>\<open>resolveProvider\<close>, and the handler raises a
  \<^verbatim>\<open>KeyError\<close> at line 119, not an \<^verbatim>\<open>AssertionError\<close>.
\<close>

theorem completion_without_resolve_provider:
  "is_completion_registration
     (JDict [(''id'', JStr ''1''), (''method'', JStr ''textDocument/completion''),
             (''registerOptions'', JDict [(''triggerCharacters'', JList [JStr ''.''])])])
   \<and> \<not> options_match
     (JDict [(''id'', JStr ''1''), (''method'', JStr ''textDocument/completion''),
             (''registerOptions'', JDict [(''triggerCharacters'', JList [JStr ''.''])])])
   \<and> fst (register_capability_handler
         (JDict [(''registrations'',
            JList [JDict [(''id'', JStr ''1''), (''method'', JStr ''textDocument/completion''),
                          (''registerOptions'',
                           JDict [(''triggerCharacters'', JList [JStr ''.''])])]])])
         demo_self)
     = Inl (KeyError ''resolveProvider'')"
  by (simp add: is_completion_registration_def options_match_def register_option_def
      and_then_def register_capability_handler_def register_capability_step_def io_defs
      py_assert_def)

end
